theory Spec2Isabelle
  imports Main
begin

section \<open>JavaScript values\<close>

text \<open>
  The values that cross the provider: what a dApp passes in, what the host returns and
  what is stored in the two state variables. Arrays and objects carry the reference of
  the heap cell they live in, since \<^verbatim>\<open>===\<close> compares them by identity. Numbers are the
  integer-valued ones and \<^verbatim>\<open>NaN\<close>. A string is a list of UTF-16 code units below 256,
  one \<open>char\<close> each (ASCII and Latin-1). Functions are not values of this type: a callback
  or a handler is a reference of its own (\<open>handler\<close>, \<open>callback\<close> below).
\<close>

type_synonym ref = nat

datatype jsval =
    JUndefined
  | JNull
  | JBool bool
  | JNum int
  | JNaN
  | JStr string
  | JArr ref "jsval list"
  | JObj ref "(string \<times> jsval) list"

text \<open>Truthiness, as \<^verbatim>\<open>if (v)\<close>, \<^verbatim>\<open>!v\<close>, \<^verbatim>\<open>a || b\<close> and \<^verbatim>\<open>a && b\<close> read it.\<close>

fun js_truthy :: "jsval \<Rightarrow> bool" where
  "js_truthy JUndefined = False"
| "js_truthy JNull = False"
| "js_truthy (JBool b) = b"
| "js_truthy (JNum n) = (n \<noteq> 0)"
| "js_truthy JNaN = False"
| "js_truthy (JStr s) = (s \<noteq> [])"
| "js_truthy (JArr r xs) = True"
| "js_truthy (JObj r kvs) = True"

definition js_or :: "jsval \<Rightarrow> jsval \<Rightarrow> jsval" where
  "js_or a b = (if js_truthy a then a else b)"

definition js_and :: "jsval \<Rightarrow> jsval \<Rightarrow> jsval" where
  "js_and a b = (if js_truthy a then b else a)"

text \<open>\<^verbatim>\<open>a ?? b\<close>: the right operand only when the left one is \<^verbatim>\<open>null\<close> or \<^verbatim>\<open>undefined\<close>.\<close>

definition js_nullish :: "jsval \<Rightarrow> bool" where
  "js_nullish a = (a = JUndefined \<or> a = JNull)"

definition js_coalesce :: "jsval \<Rightarrow> jsval \<Rightarrow> jsval" where
  "js_coalesce a b = (if js_nullish a then b else a)"

text \<open>
  Strict equality \<^verbatim>\<open>a === b\<close>: primitives by value (\<^verbatim>\<open>NaN\<close> equals nothing, itself
  included), arrays and objects by reference.
\<close>

fun strict_eq :: "jsval \<Rightarrow> jsval \<Rightarrow> bool" where
  "strict_eq JUndefined b = (b = JUndefined)"
| "strict_eq JNull b = (b = JNull)"
| "strict_eq (JBool x) b = (b = JBool x)"
| "strict_eq (JNum x) b = (b = JNum x)"
| "strict_eq JNaN b = False"
| "strict_eq (JStr x) b = (b = JStr x)"
| "strict_eq (JArr r xs) b = (case b of JArr r' ys \<Rightarrow> r = r' | _ \<Rightarrow> False)"
| "strict_eq (JObj r kvs) b = (case b of JObj r' kvs' \<Rightarrow> r = r' | _ \<Rightarrow> False)"

text \<open>\<^verbatim>\<open>typeof v\<close> and \<^verbatim>\<open>Array.isArray(v)\<close>.\<close>

fun js_typeof :: "jsval \<Rightarrow> string" where
  "js_typeof JUndefined = ''undefined''"
| "js_typeof JNull = ''object''"
| "js_typeof (JBool b) = ''boolean''"
| "js_typeof (JNum n) = ''number''"
| "js_typeof JNaN = ''number''"
| "js_typeof (JStr s) = ''string''"
| "js_typeof (JArr r xs) = ''object''"
| "js_typeof (JObj r kvs) = ''object''"

fun Array_isArray :: "jsval \<Rightarrow> bool" where
  "Array_isArray (JArr r xs) = True"
| "Array_isArray v = False"

text \<open>
  Reading a named property \<^verbatim>\<open>v.k\<close>. On \<^verbatim>\<open>null\<close> and \<^verbatim>\<open>undefined\<close> the read throws,
  and every caller below checks for them first; the value \<^verbatim>\<open>undefined\<close> given here is
  used only where \<^verbatim>\<open>undefined\<close> stands for the default argument \<^verbatim>\<open>{}\<close> of \<^verbatim>\<open>request\<close>. The
  source reads only \<^verbatim>\<open>error\<close>, \<^verbatim>\<open>result\<close>, \<^verbatim>\<open>message\<close>, \<^verbatim>\<open>code\<close>, \<^verbatim>\<open>data\<close>,
  \<^verbatim>\<open>id\<close>, \<^verbatim>\<open>method\<close> and \<^verbatim>\<open>params\<close>; no primitive, array or built-in prototype has a
  property of these names, so only an object's own entries answer.
\<close>

fun js_get :: "jsval \<Rightarrow> string \<Rightarrow> jsval" where
  "js_get (JObj r kvs) k = (case map_of kvs k of Some v \<Rightarrow> v | None \<Rightarrow> JUndefined)"
| "js_get v k = JUndefined"

text \<open>
  Reading index zero, \<^verbatim>\<open>v[0]\<close>, of a value that is neither \<^verbatim>\<open>null\<close> nor
  \<^verbatim>\<open>undefined\<close>: the first element of an array, the first character of a string, the
  entry \<^verbatim>\<open>"0"\<close> of an object, \<^verbatim>\<open>undefined\<close> otherwise.
\<close>

fun js_index0 :: "jsval \<Rightarrow> jsval" where
  "js_index0 (JArr r xs) = (case xs of [] \<Rightarrow> JUndefined | x # _ \<Rightarrow> x)"
| "js_index0 (JStr s) = (case s of [] \<Rightarrow> JUndefined | c # _ \<Rightarrow> JStr [c])"
| "js_index0 (JObj r kvs) = js_get (JObj r kvs) ''0''"
| "js_index0 v = JUndefined"

text \<open>
  \<^verbatim>\<open>String.prototype.toLowerCase\<close>, unit by unit: below 256 the upper-case units are
  \<^verbatim>\<open>A\<close> to \<^verbatim>\<open>Z\<close> (65 to 90) and the Latin-1 capitals 192 to 222 without the
  multiplication sign 215; each maps to the unit 32 above it, which sets bit 5. No
  special casing of the Unicode tables applies below 256.
\<close>

definition is_upper :: "char \<Rightarrow> bool" where
  "is_upper c =
     (let n = (of_char c :: nat)
      in (65 \<le> n \<and> n \<le> 90) \<or> (192 \<le> n \<and> n \<le> 214) \<or> (216 \<le> n \<and> n \<le> 222))"

fun lower_char :: "char \<Rightarrow> char" where
  "lower_char (Char b0 b1 b2 b3 b4 b5 b6 b7) =
     (if is_upper (Char b0 b1 b2 b3 b4 b5 b6 b7) then Char b0 b1 b2 b3 b4 True b6 b7
      else Char b0 b1 b2 b3 b4 b5 b6 b7)"

definition toLowerCase :: "string \<Rightarrow> string" where
  "toLowerCase s = map lower_char s"

definition is_ascii :: "char \<Rightarrow> bool" where
  "is_ascii c = ((of_char c :: nat) < 128)"

text \<open>
  What can be thrown, and so what a promise can be rejected with: an \<^verbatim>\<open>Error\<close> instance
  (its message, a string; its \<^verbatim>\<open>code\<close> property, \<^verbatim>\<open>undefined\<close> when none was set; and
  its \<^verbatim>\<open>data\<close> property when one was set), or any other value (what the host's promise
  was rejected with, what a handler threw). The errors of the runtime (\<^verbatim>\<open>TypeError\<close>,
  \<^verbatim>\<open>SyntaxError\<close>) are \<^verbatim>\<open>Error\<close> instances with no \<^verbatim>\<open>code\<close> and no \<^verbatim>\<open>data\<close>; the wording
  of their messages is the engine's, the texts below stand for it.
\<close>

datatype reason =
    JsError string jsval "jsval option"
  | Thrown jsval

definition TypeError :: "string \<Rightarrow> reason" where
  "TypeError txt = JsError txt JUndefined None"

definition SyntaxError :: "string \<Rightarrow> reason" where
  "SyntaxError txt = JsError txt JUndefined None"

text \<open>
  The call \<^verbatim>\<open>v.toLowerCase()\<close>: only a string has the method (an object decoded from
  JSON holds no function), so on every other value the call throws a \<^verbatim>\<open>TypeError\<close>.
\<close>

fun call_toLowerCase :: "jsval \<Rightarrow> reason + string" where
  "call_toLowerCase (JStr s) = Inr (toLowerCase s)"
| "call_toLowerCase v = Inl (TypeError ''toLowerCase is not a function'')"

section \<open>Promises, envelopes and observable effects\<close>

text \<open>
  A promise is looked at once it has settled, or as never settling (\<open>Pending\<close>: the
  bridge has no timeout). A call either throws synchronously or returns.
\<close>

datatype 'a promise = Resolved 'a | Rejected reason | Pending

datatype 'a completion = Throws reason | Returns 'a

text \<open>The legacy JSON-RPC envelope that \<^verbatim>\<open>send\<close> and \<^verbatim>\<open>sendAsync\<close> build.\<close>

record rpc_error =
  error_code :: jsval
  error_message :: jsval
  error_data :: jsval

datatype envelope =
    ResultEnvelope jsval string jsval
  | ErrorEnvelope jsval string rpc_error

text \<open>
  A handler and a legacy callback are function references; a registered value that is
  no function is a handler that throws a \<^verbatim>\<open>TypeError\<close> when called. The arguments that
  \<^verbatim>\<open>emit\<close> passes on are an array the code has just created (\<open>NewArray\<close>, its elements)
  or a value it was given (\<open>Val\<close>).
\<close>

type_synonym handler = nat

type_synonym callback = nat

datatype arg = NewArray "jsval list" | Val jsval

text \<open>
  What a run does besides changing the state, in order: \<open>Emit\<close> marks a call
  \<^verbatim>\<open>emitter.emit(event, ...args)\<close>, \<open>Invoke\<close> a call of a handler by \<^verbatim>\<open>emit\<close>,
  \<open>ConsoleError\<close> a call of \<^verbatim>\<open>console.error\<close>, \<open>Callback\<close> a call \<^verbatim>\<open>cb(a, b)\<close> of a
  legacy callback, with \<open>None\<close> for \<^verbatim>\<open>null\<close>.
\<close>

datatype effect =
    Emit string "arg list"
  | Invoke handler "arg list"
  | ConsoleError reason
  | Callback callback "reason option" "envelope option"

text \<open>
  What a legacy callback does when called is given from outside: it returns, or it
  throws a value.
\<close>

type_synonym cb_behaviour = "callback \<Rightarrow> reason option \<Rightarrow> envelope option \<Rightarrow> reason option"

section \<open>The event emitter\<close>

text \<open>
  \<^verbatim>\<open>class Emitter\<close>: \<^verbatim>\<open>_m\<close> is a plain object from event names to \<^verbatim>\<open>Set\<close>s of handlers.
  A \<^verbatim>\<open>Set\<close> is its list of entries as the language defines it: \<^verbatim>\<open>add\<close> appends a
  value that is not in the list, \<^verbatim>\<open>delete\<close> replaces the entry by an empty one (\<open>None\<close>)
  and keeps its place, and \<^verbatim>\<open>forEach\<close> walks the list by index, skips the empty entries
  and looks at the length again after every call, so that it sees what a callback has
  added or deleted. \<open>members\<close> are the values in the set, in insertion order.

  \<^verbatim>\<open>_m\<close> is created by \<^verbatim>\<open>{}\<close> and so inherits from \<^verbatim>\<open>Object.prototype\<close>: for the names
  below \<^verbatim>\<open>this._m[event]\<close> is an inherited value that is no \<^verbatim>\<open>Set\<close>, and \<^verbatim>\<open>add\<close>,
  \<^verbatim>\<open>delete\<close> and \<^verbatim>\<open>forEach\<close> on it are calls of \<^verbatim>\<open>undefined\<close>.
\<close>

type_synonym registry = "string \<Rightarrow> handler option list option"

fun members :: "handler option list \<Rightarrow> handler list" where
  "members [] = []"
| "members (None # es) = members es"
| "members (Some h # es) = h # members es"

definition Object_prototype_keys :: "string list" where
  "Object_prototype_keys =
     [''constructor'', ''hasOwnProperty'', ''isPrototypeOf'', ''propertyIsEnumerable'',
      ''toLocaleString'', ''toString'', ''valueOf'', ''__proto__'',
      ''__defineGetter__'', ''__defineSetter__'', ''__lookupGetter__'', ''__lookupSetter__'']"

definition Set_add :: "handler option list \<Rightarrow> handler \<Rightarrow> handler option list" where
  "Set_add es h = (if Some h \<in> set es then es else es @ [Some h])"

definition Set_delete :: "handler option list \<Rightarrow> handler \<Rightarrow> handler option list" where
  "Set_delete es h = map (\<lambda>e. if e = Some h then None else e) es"

text \<open>\<^verbatim>\<open>on(event, handler) { (this._m[event] ||= new Set()).add(handler); return this; }\<close>\<close>

definition Emitter_on :: "registry \<Rightarrow> string \<Rightarrow> handler \<Rightarrow> reason + registry" where
  "Emitter_on m event h =
     (case m event of
        Some es \<Rightarrow> Inr (m(event \<mapsto> Set_add es h))
      | None \<Rightarrow>
          if event \<in> set Object_prototype_keys then Inl (TypeError ''add is not a function'')
          else Inr (m(event \<mapsto> Set_add [] h)))"

text \<open>\<^verbatim>\<open>removeListener(event, handler) { this._m[event]?.delete(handler); return this; }\<close>\<close>

definition Emitter_removeListener :: "registry \<Rightarrow> string \<Rightarrow> handler \<Rightarrow> reason + registry" where
  "Emitter_removeListener m event h =
     (case m event of
        Some es \<Rightarrow> Inr (m(event \<mapsto> Set_delete es h))
      | None \<Rightarrow>
          if event \<in> set Object_prototype_keys then Inl (TypeError ''delete is not a function'')
          else Inr m)"

text \<open>
  A call of \<^verbatim>\<open>on\<close> or \<^verbatim>\<open>removeListener\<close>, and its effect on \<^verbatim>\<open>_m\<close>; a call that throws
  leaves \<^verbatim>\<open>_m\<close> as it was. \<open>bus_run\<close> is \<^verbatim>\<open>_m\<close> after a history of such calls on the empty
  \<^verbatim>\<open>_m\<close> of the constructor.
\<close>

datatype bus_op = On string handler | RemoveListener string handler

fun bus_step :: "registry \<Rightarrow> bus_op \<Rightarrow> registry" where
  "bus_step m (On event h) = (case Emitter_on m event h of Inl e \<Rightarrow> m | Inr m' \<Rightarrow> m')"
| "bus_step m (RemoveListener event h) =
     (case Emitter_removeListener m event h of Inl e \<Rightarrow> m | Inr m' \<Rightarrow> m')"


text \<open>
  What a handler does when \<^verbatim>\<open>emit\<close> calls it is given from outside: the calls of
  \<^verbatim>\<open>on\<close> and \<^verbatim>\<open>removeListener\<close> it makes on this emitter (through the provider), in
  order, and then whether it returns (\<open>None\<close>) or throws a value. Other calls back into
  the provider from inside a handler (\<^verbatim>\<open>request\<close>, \<^verbatim>\<open>_emitFromHost\<close>) are outside the
  model.
\<close>

type_synonym live_behaviour = "handler \<Rightarrow> arg list \<Rightarrow> bus_op list \<times> reason option"

text \<open>
  \<^verbatim>\<open>this._m[event].forEach(fn => { try { fn(...args); } catch (e) { console.error(e); } })\<close>
  from \<open>index\<close> on. The loop ends when the index reaches the length of the list as it
  is then; a handler that keeps adding entries keeps it running, so the loop is given
  fuel, one unit for every entry it looks at, and reports whether it came to its end
  (\<open>True\<close>), the \<^verbatim>\<open>_m\<close> it leaves, and the effects.
\<close>

fun Set_forEach ::
  "nat \<Rightarrow> live_behaviour \<Rightarrow> string \<Rightarrow> arg list \<Rightarrow> nat \<Rightarrow> registry
     \<Rightarrow> bool \<times> registry \<times> effect list" where
  "Set_forEach 0 hb event args index m = (False, m, [])"
| "Set_forEach (Suc n) hb event args index m =
     (case m event of
        None \<Rightarrow> (True, m, [])
      | Some es \<Rightarrow>
          if index < length es then
            (case es ! index of
               None \<Rightarrow> Set_forEach n hb event args (Suc index) m
             | Some fn \<Rightarrow>
                 (case Set_forEach n hb event args (Suc index)
                         (foldl bus_step m (fst (hb fn args))) of
                    (finished, m', t) \<Rightarrow>
                      (finished, m',
                       Invoke fn args
                         # (case snd (hb fn args) of None \<Rightarrow> [] | Some e \<Rightarrow> [ConsoleError e])
                         @ t)))
          else (True, m, []))"

text \<open>
  \<^verbatim>\<open>emit(event, ...args) { this._m[event]?.forEach(...) }\<close>: whether it returned, threw,
  or is still running when the fuel is used up (\<open>None\<close>); the \<^verbatim>\<open>_m\<close> it leaves; and the
  effects, the first of which marks the call itself.
\<close>

definition Emitter_emit_live ::
  "nat \<Rightarrow> live_behaviour \<Rightarrow> registry \<Rightarrow> string \<Rightarrow> arg list
     \<Rightarrow> unit completion option \<times> registry \<times> effect list" where
  "Emitter_emit_live n hb m event args =
     (case m event of
        Some es \<Rightarrow>
          (case Set_forEach n hb event args 0 m of
             (finished, m', t) \<Rightarrow>
               (if finished then Some (Returns ()) else None, m', Emit event args # t))
      | None \<Rightarrow>
          if event \<in> set Object_prototype_keys
          then (Some (Throws (TypeError ''forEach is not a function'')), m, [Emit event args])
          else (Some (Returns ()), m, [Emit event args]))"

text \<open>
  The provider's functions below are modelled for handlers that only return or throw
  and make no call on the emitter while \<^verbatim>\<open>emit\<close> runs (\<open>behaviour\<close>, lifted by
  \<open>no_calls\<close>). For them the loop ends within one step per entry and one more, and
  \<open>Emitter_emit\<close> is \<^verbatim>\<open>emit\<close> with that fuel: what it threw, if anything, and its
  effects. \<^verbatim>\<open>_m\<close> stays as it is.
\<close>

type_synonym behaviour = "handler \<Rightarrow> arg list \<Rightarrow> reason option"

definition no_calls :: "behaviour \<Rightarrow> live_behaviour" where
  "no_calls hb h args = ([], hb h args)"

definition Emitter_emit ::
  "behaviour \<Rightarrow> registry \<Rightarrow> string \<Rightarrow> arg list \<Rightarrow> reason option \<times> effect list" where
  "Emitter_emit hb m event args =
     (case Emitter_emit_live
             (Suc (case m event of None \<Rightarrow> 0 | Some es \<Rightarrow> length es))
             (no_calls hb) m event args of
        (Some (Throws e), m', t) \<Rightarrow> (Some e, t)
      | (c, m', t) \<Rightarrow> (None, t))"

text \<open>
  The effects of calling the handlers of a list one after the other, each returning or
  throwing: what the loop does for handlers that make no call on the emitter.
\<close>

fun visits :: "behaviour \<Rightarrow> arg list \<Rightarrow> handler list \<Rightarrow> effect list" where
  "visits hb args [] = []"
| "visits hb args (fn # fns) =
     Invoke fn args
       # (case hb fn args of None \<Rightarrow> [] | Some e \<Rightarrow> [ConsoleError e])
       @ visits hb args fns"

section \<open>The bridge\<close>

text \<open>
  What \<^verbatim>\<open>callHost\<close> hands to the bridge, \<^verbatim>\<open>{ id, method, params }\<close>. The host receives
  its JSON text; the model hands it the object itself.
\<close>

record payload =
  req_id :: jsval
  req_method :: jsval
  req_params :: jsval

text \<open>
  What \<^verbatim>\<open>window.flutter_inappwebview.callHandler(BRIDGE, text)\<close> does: it returns a
  promise that resolves with \<open>raw\<close>, that is rejected with a value, or that never
  settles; or the call itself throws.
\<close>

datatype host_reply =
    HostResolves jsval
  | HostRejects jsval
  | HostSilent
  | HostThrows reason

text \<open>
  The page around one call: \<open>callHandler\<close> is
  \<^verbatim>\<open>window.flutter_inappwebview?.callHandler\<close> (\<open>None\<close> when it is missing),
  \<open>JSON_parse\<close> is the built-in decoder (\<open>Inl\<close> the message of the \<^verbatim>\<open>SyntaxError\<close> it
  throws), \<open>ToString\<close> is the engine's conversion of a value that is no string to a
  string (\<open>Inl\<close> what it throws, as for an object whose \<^verbatim>\<open>toString\<close> entry is no
  function), \<open>genId\<close> is the number \<^verbatim>\<open>genId()\<close> draws in this call.
\<close>

record world =
  callHandler :: "(jsval \<Rightarrow> payload \<Rightarrow> host_reply) option"
  JSON_parse :: "string \<Rightarrow> string + jsval"
  ToString :: "jsval \<Rightarrow> reason + string"
  genId :: int

text \<open>
  The message that \<^verbatim>\<open>new Error(v)\<close> stores for a \<open>v\<close> that is not \<^verbatim>\<open>undefined\<close>: the
  string conversion of \<open>v\<close>, which is \<open>v\<close> itself for a string. The constructor throws
  what the conversion throws.
\<close>

definition Error_message :: "world \<Rightarrow> jsval \<Rightarrow> reason + string" where
  "Error_message w v = (case v of JStr txt \<Rightarrow> Inr txt | _ \<Rightarrow> ToString w v)"

text \<open>
  The callback of \<^verbatim>\<open>callHost\<close>'s \<^verbatim>\<open>.then((raw) => ...)\<close>, as the settlement of the
  promise it returns. A throw inside the callback rejects the promise.
\<close>

definition decode :: "world \<Rightarrow> jsval \<Rightarrow> string + jsval" where
  "decode w raw = (case raw of JStr txt \<Rightarrow> JSON_parse w txt | _ \<Rightarrow> Inr raw)"

definition host_then :: "world \<Rightarrow> jsval \<Rightarrow> jsval promise" where
  "host_then w raw =
     (case decode w raw of
        Inl txt \<Rightarrow> Rejected (SyntaxError txt)
      | Inr resp \<Rightarrow>
          if \<not> js_truthy resp then Resolved JNull
          else if js_truthy (js_get resp ''error'') then
            (case Error_message w
                    (js_or (js_get (js_get resp ''error'') ''message'') (JStr ''Provider error'')) of
               Inl e \<Rightarrow> Rejected e
             | Inr msg \<Rightarrow>
                 Rejected
                   (JsError msg
                     (js_coalesce (js_get (js_get resp ''error'') ''code'') (JNum (- 32603)))
                     (if js_get (js_get resp ''error'') ''data'' \<noteq> JUndefined
                      then Some (js_get (js_get resp ''error'') ''data'')
                      else None)))
          else Resolved (js_get resp ''result''))"

definition callHost :: "world \<Rightarrow> jsval \<Rightarrow> payload \<Rightarrow> jsval promise completion" where
  "callHost w bridgeName p =
     (case callHandler w of
        None \<Rightarrow> Returns (Rejected (JsError ''Bridge not available'' (JNum (- 32603)) None))
      | Some handler \<Rightarrow>
          (case handler bridgeName p of
             HostThrows e \<Rightarrow> Throws e
           | HostSilent \<Rightarrow> Returns Pending
           | HostRejects v \<Rightarrow> Returns (Rejected (Thrown v))
           | HostResolves raw \<Rightarrow> Returns (host_then w raw)))"

section \<open>The provider\<close>

text \<open>
  The variables that \<^verbatim>\<open>createEip1193Provider\<close> closes over: \<^verbatim>\<open>_selectedAddress\<close>,
  \<^verbatim>\<open>_chainId\<close>, the emitter's \<^verbatim>\<open>_m\<close> and the constant \<^verbatim>\<open>BRIDGE\<close>.
\<close>

record pstate =
  selectedAddress :: jsval
  chainId :: jsval
  emitter_m :: registry
  BRIDGE :: jsval

text \<open>
  The callback of \<^verbatim>\<open>request\<close>'s \<^verbatim>\<open>.then((result) => ...)\<close>, run on the state of the
  moment the host's answer arrives: the settlement of the promise \<^verbatim>\<open>request\<close> returned,
  the state afterwards, and the effects. A throw inside the callback rejects the
  promise.
\<close>

definition request_then ::
  "behaviour \<Rightarrow> pstate \<Rightarrow> jsval \<Rightarrow> jsval \<Rightarrow> jsval promise \<times> pstate \<times> effect list" where
  "request_then hb s method result =
     (if method = JStr ''eth_requestAccounts'' \<or> method = JStr ''eth_accounts'' then
        (if Array_isArray result then
           (let next = js_or (js_index0 result) JNull in
            case call_toLowerCase (js_or next (JStr [])) of
              Inl e \<Rightarrow> (Rejected e, s, [])
            | Inr a \<Rightarrow>
                (case call_toLowerCase (js_or (selectedAddress s) (JStr [])) of
                   Inl e \<Rightarrow> (Rejected e, s, [])
                 | Inr b \<Rightarrow>
                     (let changed = (a \<noteq> b);
                          s' = s\<lparr>selectedAddress := next\<rparr>
                      in if changed then
                           (case Emitter_emit hb (emitter_m s') ''accountsChanged''
                                   [NewArray (if js_truthy (selectedAddress s')
                                              then [selectedAddress s'] else [])] of
                              (Some e, t) \<Rightarrow> (Rejected e, s', t)
                            | (None, t) \<Rightarrow> (Resolved result, s', t))
                         else (Resolved result, s', []))))
         else (Resolved result, s, []))
      else if method = JStr ''eth_chainId'' then
        (if js_typeof result = ''string'' then
           (let changed = (\<not> strict_eq result (chainId s));
                s' = s\<lparr>chainId := result\<rparr>
            in if changed then
                 (case Emitter_emit hb (emitter_m s') ''chainChanged'' [Val (chainId s')] of
                    (Some e, t) \<Rightarrow> (Rejected e, s', t)
                  | (None, t) \<Rightarrow> (Resolved result, s', t))
               else (Resolved result, s', []))
         else (Resolved result, s, []))
      else (Resolved result, s, []))"

text \<open>
  \<^verbatim>\<open>request: ({ method, params } = {}) => { const id = genId(); return callHost({ id,
  method, params }).then(...) }\<close>. The parameter pattern comes first: \<^verbatim>\<open>null\<close> cannot be
  destructured, and the call throws a \<^verbatim>\<open>TypeError\<close>; \<^verbatim>\<open>undefined\<close> (no argument) stands
  for \<^verbatim>\<open>{}\<close>, whose two fields read \<^verbatim>\<open>undefined\<close> as those of \<^verbatim>\<open>undefined\<close> do in
  \<open>js_get\<close>; of every other value the two properties are read.
\<close>

definition request ::
  "world \<Rightarrow> behaviour \<Rightarrow> pstate \<Rightarrow> jsval
     \<Rightarrow> jsval promise completion \<times> pstate \<times> effect list" where
  "request w hb s args =
     (if args = JNull
      then (Throws (TypeError ''Cannot destructure property method of null''), s, [])
      else
        (case callHost w (BRIDGE s)
                \<lparr>req_id = JNum (genId w),
                 req_method = js_get args ''method'',
                 req_params = js_get args ''params''\<rparr> of
           Throws e \<Rightarrow> (Throws e, s, [])
         | Returns (Resolved result) \<Rightarrow>
             (case request_then hb s (js_get args ''method'') result of
                (p, s', t) \<Rightarrow> (Returns p, s', t))
         | Returns (Rejected e) \<Rightarrow> (Returns (Rejected e), s, [])
         | Returns Pending \<Rightarrow> (Returns Pending, s, [])))"

text \<open>\<^verbatim>\<open>on\<close> and \<^verbatim>\<open>removeListener\<close> of the provider: the emitter's, on the provider's state.\<close>

definition on :: "pstate \<Rightarrow> string \<Rightarrow> handler \<Rightarrow> reason + pstate" where
  "on s event h =
     (case Emitter_on (emitter_m s) event h of
        Inl e \<Rightarrow> Inl e
      | Inr m' \<Rightarrow> Inr (s\<lparr>emitter_m := m'\<rparr>))"

definition removeListener :: "pstate \<Rightarrow> string \<Rightarrow> handler \<Rightarrow> reason + pstate" where
  "removeListener s event h =
     (case Emitter_removeListener (emitter_m s) event h of
        Inl e \<Rightarrow> Inl e
      | Inr m' \<Rightarrow> Inr (s\<lparr>emitter_m := m'\<rparr>))"

text \<open>
  \<^verbatim>\<open>enable: () => provider.request({ method: 'eth_requestAccounts' })\<close>. The object
  literal is a new object that only \<^verbatim>\<open>request\<close> sees; its reference plays no part.
\<close>

definition enable ::
  "world \<Rightarrow> behaviour \<Rightarrow> pstate \<Rightarrow> jsval promise completion \<times> pstate \<times> effect list" where
  "enable w hb s = request w hb s (JObj 0 [(''method'', JStr ''eth_requestAccounts'')])"

text \<open>
  \<^verbatim>\<open>_emitFromHost(event, payload)\<close>: a throw leaves the function at once, with the state
  and the effects reached by then.
\<close>

definition emitFromHost ::
  "behaviour \<Rightarrow> pstate \<Rightarrow> string \<Rightarrow> jsval \<Rightarrow> unit completion \<times> pstate \<times> effect list" where
  "emitFromHost hb s event payload =
     (if event = ''accountsChanged'' then
        (let next = js_or (js_and payload (js_index0 payload)) JNull in
         case call_toLowerCase (js_or next (JStr [])) of
           Inl e \<Rightarrow> (Throws e, s, [])
         | Inr a \<Rightarrow>
             (case call_toLowerCase (js_or (selectedAddress s) (JStr [])) of
                Inl e \<Rightarrow> (Throws e, s, [])
              | Inr b \<Rightarrow>
                  (let changed = (a \<noteq> b);
                       s' = s\<lparr>selectedAddress := next\<rparr>
                   in if changed then
                        (case Emitter_emit hb (emitter_m s') ''accountsChanged''
                                [NewArray (if js_truthy (selectedAddress s')
                                           then [selectedAddress s'] else [])] of
                           (Some e, t) \<Rightarrow> (Throws e, s', t)
                         | (None, t) \<Rightarrow> (Returns (), s', t))
                      else (Returns (), s', []))))
      else if event = ''chainChanged'' then
        (let changed = (\<not> strict_eq payload (chainId s));
             s' = s\<lparr>chainId := payload\<rparr>
         in if changed then
              (case Emitter_emit hb (emitter_m s') ''chainChanged'' [Val (chainId s')] of
                 (Some e, t) \<Rightarrow> (Throws e, s', t)
               | (None, t) \<Rightarrow> (Returns (), s', t))
            else (Returns (), s', []))
      else
        (case Emitter_emit hb (emitter_m s) event [Val payload] of
           (Some e, t) \<Rightarrow> (Throws e, s, t)
         | (None, t) \<Rightarrow> (Returns (), s, t)))"

section \<open>The legacy adapter\<close>

text \<open>
  The second argument of \<^verbatim>\<open>send\<close> and \<^verbatim>\<open>sendAsync\<close>: a function (a callback reference)
  or any other value. What a callback does when called is given from outside
  (\<open>cb_behaviour\<close>): it returns, or it throws a value.
\<close>

datatype arg2 = Fn callback | NotFn jsval

text \<open>What \<^verbatim>\<open>send\<close> returns: nothing, the promise of \<^verbatim>\<open>request\<close>, or a promise of an envelope.\<close>

datatype ret =
    RetUndefined
  | RetRequest "jsval promise"
  | RetEnvelope "envelope promise"

text \<open>
  The chain that \<^verbatim>\<open>send\<close> and \<^verbatim>\<open>sendAsync\<close> both write out on \<^verbatim>\<open>callHost\<close>'s promise:
  \<^verbatim>\<open>.then((result) => ({ id: payload.id, jsonrpc: '2.0', result }))
  .catch((err) => ({ id: payload.id, jsonrpc: '2.0', error: { code: err.code ?? -32603,
  message: err.message, data: err.data } }))\<close>. Reading \<^verbatim>\<open>err.code\<close> throws when the
  promise was rejected with \<^verbatim>\<open>null\<close> or \<^verbatim>\<open>undefined\<close>.
\<close>

definition catch_envelope :: "jsval \<Rightarrow> reason \<Rightarrow> envelope promise" where
  "catch_envelope payload err =
     (case err of
        JsError msg c d \<Rightarrow>
          Resolved (ErrorEnvelope (js_get payload ''id'') ''2.0''
            \<lparr>error_code = js_coalesce c (JNum (- 32603)),
             error_message = JStr msg,
             error_data = (case d of Some v \<Rightarrow> v | None \<Rightarrow> JUndefined)\<rparr>)
      | Thrown v \<Rightarrow>
          if js_nullish v then Rejected (TypeError ''Cannot read properties of null or undefined'')
          else
            Resolved (ErrorEnvelope (js_get payload ''id'') ''2.0''
              \<lparr>error_code = js_coalesce (js_get v ''code'') (JNum (- 32603)),
               error_message = js_get v ''message'',
               error_data = js_get v ''data''\<rparr>))"

definition envelope_of :: "jsval \<Rightarrow> jsval promise \<Rightarrow> envelope promise" where
  "envelope_of payload q =
     (case q of
        Resolved result \<Rightarrow> Resolved (ResultEnvelope (js_get payload ''id'') ''2.0'' result)
      | Rejected err \<Rightarrow> catch_envelope payload err
      | Pending \<Rightarrow> Pending)"

text \<open>
  \<^verbatim>\<open>p.then(r => cb(null, r)).catch(e => cb(e, null))\<close>: a throw of the first call of
  \<^verbatim>\<open>cb\<close> is caught by the \<^verbatim>\<open>catch\<close>, which calls \<^verbatim>\<open>cb\<close> again. With a \<^verbatim>\<open>cb\<close> that is no
  function both calls throw and nothing is called.
\<close>

definition notify :: "cb_behaviour \<Rightarrow> arg2 \<Rightarrow> envelope promise \<Rightarrow> effect list" where
  "notify cbb cb p =
     (case cb of
        NotFn v \<Rightarrow> []
      | Fn f \<Rightarrow>
          (case p of
             Resolved r \<Rightarrow>
               Callback f None (Some r)
                 # (case cbb f None (Some r) of
                      None \<Rightarrow> []
                    | Some e \<Rightarrow> [Callback f (Some e) None])
           | Rejected e \<Rightarrow> [Callback f (Some e) None]
           | Pending \<Rightarrow> []))"

text \<open>
  \<^verbatim>\<open>send(methodOrPayload, paramsOrCallback)\<close>. In the string form it calls
  \<^verbatim>\<open>provider.request({ method: methodOrPayload, params: paramsOrCallback })\<close> with a new
  object; the second argument goes to the host as \<^verbatim>\<open>params\<close>, and a function there is
  left out of the JSON text, as \<^verbatim>\<open>undefined\<close> is. In the payload form \<^verbatim>\<open>payload.id\<close> is
  read first and throws on \<^verbatim>\<open>null\<close> and \<^verbatim>\<open>undefined\<close>.
\<close>

definition send ::
  "world \<Rightarrow> behaviour \<Rightarrow> cb_behaviour \<Rightarrow> pstate \<Rightarrow> jsval \<Rightarrow> arg2
     \<Rightarrow> ret completion \<times> pstate \<times> effect list" where
  "send w hb cbb s methodOrPayload paramsOrCallback =
     (if js_typeof methodOrPayload = ''string'' then
        (case request w hb s
                (JObj 0 [(''method'', methodOrPayload),
                         (''params'', case paramsOrCallback of NotFn v \<Rightarrow> v | Fn f \<Rightarrow> JUndefined)]) of
           (Throws e, s', t) \<Rightarrow> (Throws e, s', t)
         | (Returns p, s', t) \<Rightarrow> (Returns (RetRequest p), s', t))
      else if js_nullish methodOrPayload
      then (Throws (TypeError ''Cannot read properties of null or undefined''), s, [])
      else
        (case callHost w (BRIDGE s)
                \<lparr>req_id = js_coalesce (js_get methodOrPayload ''id'') (JNum (genId w)),
                 req_method = js_get methodOrPayload ''method'',
                 req_params = js_get methodOrPayload ''params''\<rparr> of
           Throws e \<Rightarrow> (Throws e, s, [])
         | Returns q \<Rightarrow>
             (let p = envelope_of methodOrPayload q in
              case paramsOrCallback of
                Fn f \<Rightarrow> (Returns RetUndefined, s, notify cbb paramsOrCallback p)
              | NotFn v \<Rightarrow> (Returns (RetEnvelope p), s, []))))"

text \<open>\<^verbatim>\<open>sendAsync(payload, cb)\<close>: the same chain, always with the callback; it returns nothing.\<close>

definition sendAsync ::
  "world \<Rightarrow> cb_behaviour \<Rightarrow> pstate \<Rightarrow> jsval \<Rightarrow> arg2
     \<Rightarrow> unit completion \<times> pstate \<times> effect list" where
  "sendAsync w cbb s payload cb =
     (if js_nullish payload
      then (Throws (TypeError ''Cannot read properties of null or undefined''), s, [])
      else
        (case callHost w (BRIDGE s)
                \<lparr>req_id = js_coalesce (js_get payload ''id'') (JNum (genId w)),
                 req_method = js_get payload ''method'',
                 req_params = js_get payload ''params''\<rparr> of
           Throws e \<Rightarrow> (Throws e, s, [])
         | Returns q \<Rightarrow> (Returns (), s, notify cbb cb (envelope_of payload q))))"

section \<open>Construction, discovery and registration\<close>

text \<open>
  The configuration object \<^verbatim>\<open>cfg\<close>; a field that is not given is \<^verbatim>\<open>undefined\<close>.
\<close>

record cfg =
  name :: jsval
  icon :: jsval
  rdns :: jsval
  bridgeName :: jsval
  initialSelectedAddress :: jsval
  initialChainId :: jsval
  autoInject :: jsval
  forceReplace :: jsval
  enableLegacyWeb3 :: jsval
  enableEip6963 :: jsval

text \<open>
  The provider object that the factory returns: its identity (it is a new object), the
  variables it closes over, its wallet flags and its \<^verbatim>\<open>providers\<close> list.
\<close>

record provider =
  ident :: ref
  closure :: pstate
  isMetaMask :: bool
  isStatus :: bool
  isCoinbaseWallet :: bool
  isMyWallet :: bool
  providers :: "ref list"

text \<open>
  The page's \<^verbatim>\<open>window\<close>, as far as the factory touches it. A global holds a provider
  of this factory (by identity) or some other value. \<^verbatim>\<open>window.ethereum\<close> is a data
  property with its attributes, or is not there; \<^verbatim>\<open>window.web3\<close> is an ordinary writable
  global; \<open>listeners\<close> are the \<^verbatim>\<open>announce\<close> closures registered for
  \<^verbatim>\<open>eip6963:requestProvider\<close>, each with the \<^verbatim>\<open>info\<close> and the provider it announces;
  \<open>dispatched\<close> are the events handed to \<^verbatim>\<open>window.dispatchEvent\<close>, oldest first. The page
  is a browser page: \<^verbatim>\<open>Event\<close>, \<^verbatim>\<open>CustomEvent\<close>, \<^verbatim>\<open>addEventListener\<close> and
  \<^verbatim>\<open>dispatchEvent\<close> exist, so the two \<^verbatim>\<open>try\<close> blocks never reach their \<^verbatim>\<open>catch\<close>.
\<close>

datatype global = Provider ref | Foreign jsval

record property =
  prop_value :: global
  prop_writable :: bool
  prop_configurable :: bool

record info =
  uuid :: string
  info_name :: jsval
  info_icon :: jsval
  info_rdns :: jsval

datatype window_event =
    AnnounceProvider info ref
  | EthereumInitialized

record window =
  ethereum :: "property option"
  web3_currentProvider :: "global option"
  listeners :: "(info \<times> ref) list"
  dispatched :: "window_event list"

fun global_truthy :: "global \<Rightarrow> bool" where
  "global_truthy (Provider p) = True"
| "global_truthy (Foreign v) = js_truthy v"

text \<open>\<^verbatim>\<open>!!window.ethereum\<close>\<close>

definition hasExisting :: "window \<Rightarrow> bool" where
  "hasExisting win =
     (case ethereum win of None \<Rightarrow> False | Some pr \<Rightarrow> global_truthy (prop_value pr))"

text \<open>
  \<^verbatim>\<open>Object.defineProperty(window, 'ethereum', { value, configurable })\<close> on an extensible
  \<^verbatim>\<open>window\<close>: a new property is not writable; a configurable one takes the value and the
  flag and keeps its writability; a property that is not configurable cannot become
  configurable, and changes its value only when it is writable. A refused definition
  throws a \<^verbatim>\<open>TypeError\<close>.
\<close>

definition defineProperty_ethereum :: "window \<Rightarrow> global \<Rightarrow> bool \<Rightarrow> reason + window" where
  "defineProperty_ethereum win v conf =
     (case ethereum win of
        None \<Rightarrow>
          Inr (win\<lparr>ethereum :=
                 Some \<lparr>prop_value = v, prop_writable = False, prop_configurable = conf\<rparr>\<rparr>)
      | Some cur \<Rightarrow>
          if prop_configurable cur then
            Inr (win\<lparr>ethereum := Some (cur\<lparr>prop_value := v, prop_configurable := conf\<rparr>)\<rparr>)
          else if conf then Inl (TypeError ''Cannot redefine property: ethereum'')
          else if prop_writable cur \<or> prop_value cur = v then
            Inr (win\<lparr>ethereum := Some (cur\<lparr>prop_value := v\<rparr>)\<rparr>)
          else Inl (TypeError ''Cannot redefine property: ethereum''))"

text \<open>
  \<^verbatim>\<open>createEip1193Provider(cfg)\<close>: \<open>pid\<close> is the identity of the provider object it
  creates, \<open>fresh_uuid\<close> the string that \<^verbatim>\<open>crypto.randomUUID()\<close> (or
  \<^verbatim>\<open>String(Math.random())\<close>) draws. It returns the provider or throws, and leaves the
  window as changed up to there. The three blocks of its body that touch the window
  are \<open>legacy_web3\<close>, \<open>eip6963\<close> and \<open>inject\<close>, in the source's order.
\<close>

definition initial_state :: "cfg \<Rightarrow> pstate" where
  "initial_state c =
     \<lparr>selectedAddress = js_coalesce (initialSelectedAddress c) JNull,
      chainId = js_coalesce (initialChainId c) JNull,
      emitter_m = Map.empty,
      BRIDGE = js_or (bridgeName c) (JStr ''ethereum'')\<rparr>"

definition new_provider :: "ref \<Rightarrow> cfg \<Rightarrow> provider" where
  "new_provider pid c =
     \<lparr>ident = pid, closure = initial_state c,
      isMetaMask = False, isStatus = False, isCoinbaseWallet = False, isMyWallet = True,
      providers = [pid]\<rparr>"

definition legacy_web3 :: "ref \<Rightarrow> cfg \<Rightarrow> window \<Rightarrow> window" where
  "legacy_web3 pid c win =
     (if enableLegacyWeb3 c \<noteq> JBool False
      then win\<lparr>web3_currentProvider := Some (Provider pid)\<rparr>
      else win)"

definition eip6963 :: "ref \<Rightarrow> string \<Rightarrow> cfg \<Rightarrow> window \<Rightarrow> window" where
  "eip6963 pid fresh_uuid c win =
     (if enableEip6963 c \<noteq> JBool False then
        (let i = \<lparr>uuid = fresh_uuid,
                  info_name = js_or (name c) (JStr ''My Flutter Wallet''),
                  info_icon = js_or (icon c) (JStr ''data:image/svg+xml;base64,''),
                  info_rdns = js_or (rdns c) (JStr ''app.myflutter.wallet'')\<rparr>
         in win\<lparr>listeners := listeners win @ [(i, pid)],
                dispatched := dispatched win @ [AnnounceProvider i pid]\<rparr>)
      else win)"

definition inject :: "ref \<Rightarrow> cfg \<Rightarrow> window \<Rightarrow> reason option \<times> window" where
  "inject pid c win =
     (let shouldInject = (autoInject c \<noteq> JBool False);
          existing = hasExisting win
      in if shouldInject \<and> (\<not> existing \<or> js_truthy (forceReplace c)) then
           (case defineProperty_ethereum win (Provider pid) (js_truthy (forceReplace c)) of
              Inl e \<Rightarrow> (Some e, win)
            | Inr win' \<Rightarrow>
                (None, win'\<lparr>dispatched := dispatched win' @ [EthereumInitialized]\<rparr>))
         else (None, win))"

definition createEip1193Provider ::
  "ref \<Rightarrow> string \<Rightarrow> cfg \<Rightarrow> window \<Rightarrow> provider completion \<times> window" where
  "createEip1193Provider pid fresh_uuid c win =
     (case inject pid c (eip6963 pid fresh_uuid c (legacy_web3 pid c win)) of
        (Some e, win') \<Rightarrow> (Throws e, win')
      | (None, win') \<Rightarrow> (Returns (new_provider pid c), win'))"

section \<open>Reading a run\<close>

text \<open>
  The calls of \<^verbatim>\<open>emitter.emit\<close> in a list of effects (event name and arguments), the
  handlers that were invoked, and the values handed to \<^verbatim>\<open>console.error\<close>.
\<close>

fun emitted :: "effect list \<Rightarrow> (string \<times> arg list) list" where
  "emitted [] = []"
| "emitted (Emit event args # t) = (event, args) # emitted t"
| "emitted (x # t) = emitted t"



text \<open>
  A sequence of account updates: each is a call of \<^verbatim>\<open>request\<close> with an argument (in the
  page of that call) or a push \<^verbatim>\<open>_emitFromHost('accountsChanged', payload)\<close>.
  \<open>run_updates\<close> performs them in order, each on the state the one before left, and
  lists for every step the \<^verbatim>\<open>selectedAddress\<close> after it and its effects.
\<close>

datatype update = ByRequest world jsval | ByHost jsval

fun deliver :: "behaviour \<Rightarrow> pstate \<Rightarrow> update \<Rightarrow> pstate \<times> effect list" where
  "deliver hb s (ByRequest w args) = snd (request w hb s args)"
| "deliver hb s (ByHost payload) = snd (emitFromHost hb s ''accountsChanged'' payload)"

fun run_updates :: "behaviour \<Rightarrow> pstate \<Rightarrow> update list \<Rightarrow> (jsval \<times> effect list) list" where
  "run_updates hb s [] = []"
| "run_updates hb s (u # us) =
     (case deliver hb s u of (s', t) \<Rightarrow> (selectedAddress s', t) # run_updates hb s' us)"

text \<open>
  The accounts value an update delivers: what the host answered to an
  \<^verbatim>\<open>eth_requestAccounts\<close> or \<^verbatim>\<open>eth_accounts\<close> request, or the pushed payload.
\<close>

fun delivered :: "jsval \<Rightarrow> update \<Rightarrow> jsval option" where
  "delivered b (ByRequest w args) =
     (if js_get args ''method'' = JStr ''eth_requestAccounts''
         \<or> js_get args ''method'' = JStr ''eth_accounts'' then
        (case callHost w b
                \<lparr>req_id = JNum (genId w),
                 req_method = js_get args ''method'',
                 req_params = js_get args ''params''\<rparr> of
           Returns (Resolved result) \<Rightarrow> Some result
         | _ \<Rightarrow> None)
      else None)"
| "delivered b (ByHost payload) = Some payload"

text \<open>
  An address is a string of ASCII units (as the hexadecimal addresses are). An
  address array is an array of addresses, and an account update delivers one.
\<close>

fun is_address :: "jsval \<Rightarrow> bool" where
  "is_address (JStr a) = list_all is_ascii a"
| "is_address v = False"

fun address_array :: "jsval \<Rightarrow> bool" where
  "address_array (JArr r xs) = list_all is_address xs"
| "address_array v = False"

definition account_update :: "jsval \<Rightarrow> update \<Rightarrow> bool" where
  "account_update b u = (case delivered b u of None \<Rightarrow> False | Some v \<Rightarrow> address_array v)"

text \<open>
  The candidate address of an accounts array: its first element, \<^verbatim>\<open>null\<close> when there is
  none (or when it is the empty string).
\<close>

definition candidate :: "jsval \<Rightarrow> update \<Rightarrow> jsval" where
  "candidate b u =
     (case delivered b u of
        None \<Rightarrow> JNull
      | Some v \<Rightarrow> (case js_index0 v of JStr a \<Rightarrow> if a = [] then JNull else JStr a | _ \<Rightarrow> JNull))"

text \<open>
  The change detection in the specification's words: the candidate is stored as it is;
  \<^verbatim>\<open>accountsChanged\<close> fires iff the lower-cased candidate differs from the lower-cased
  previous address, with \<^verbatim>\<open>null\<close> read as the empty string; its argument is the list of
  the new address, empty when there is none.
\<close>

fun address_text :: "jsval \<Rightarrow> string" where
  "address_text (JStr a) = a"
| "address_text v = []"

fun spec_updates :: "jsval \<Rightarrow> jsval list \<Rightarrow> (jsval \<times> (string \<times> arg list) list) list" where
  "spec_updates prev [] = []"
| "spec_updates prev (c # cs) =
     (c, if toLowerCase (address_text c) \<noteq> toLowerCase (address_text prev)
         then [(''accountsChanged'', [NewArray (if c = JNull then [] else [c])])]
         else [])
       # spec_updates c cs"

text \<open>
  Pages, handlers and callbacks for concrete runs. The hosts of these pages answer with
  decoded values and with string messages, so that the decoder and the string conversion
  of the page are not asked; \<open>no_parse\<close> and \<open>object_String\<close> fill their places.
\<close>

definition quiet :: behaviour where
  "quiet h args = None"

definition second_throws :: behaviour where
  "second_throws h args = (if h = 2 then Some (Thrown (JStr ''boom'')) else None)"


definition calm :: cb_behaviour where
  "calm f a b = None"

definition no_parse :: "string \<Rightarrow> string + jsval" where
  "no_parse txt = Inl ''Unexpected token''"

definition object_String :: "jsval \<Rightarrow> reason + string" where
  "object_String v = Inr ''[object Object]''"

definition answers :: "jsval \<Rightarrow> jsval \<Rightarrow> payload \<Rightarrow> host_reply" where
  "answers raw b p = HostResolves raw"

definition page_answering :: "jsval \<Rightarrow> world" where
  "page_answering raw =
     \<lparr>callHandler = Some (answers raw), JSON_parse = no_parse, ToString = object_String,
      genId = 42\<rparr>"

definition page_without_bridge :: world where
  "page_without_bridge =
     \<lparr>callHandler = None, JSON_parse = no_parse, ToString = object_String, genId = 42\<rparr>"

definition fresh_state :: pstate where
  "fresh_state =
     \<lparr>selectedAddress = JNull, chainId = JNull, emitter_m = Map.empty,
      BRIDGE = JStr ''ethereum''\<rparr>"

definition default_cfg :: cfg where
  "default_cfg =
     \<lparr>name = JUndefined, icon = JUndefined, rdns = JUndefined, bridgeName = JUndefined,
      initialSelectedAddress = JUndefined, initialChainId = JUndefined,
      autoInject = JUndefined, forceReplace = JUndefined,
      enableLegacyWeb3 = JUndefined, enableEip6963 = JUndefined\<rparr>"

definition empty_window :: window where
  "empty_window =
     \<lparr>ethereum = None, web3_currentProvider = None, listeners = [], dispatched = []\<rparr>"

section \<open>Lemmas about the emitter\<close>







lemma members_drop:
  "i < length es \<Longrightarrow>
   members (drop i es)
     = (case es ! i of None \<Rightarrow> [] | Some h \<Rightarrow> [h]) @ members (drop (Suc i) es)"
proof -
  assume "i < length es"
  then have "drop i es = es ! i # drop (Suc i) es"
    by (simp add: Cons_nth_drop_Suc)
  then show ?thesis
    by (cases "es ! i") simp_all
qed






lemma emitted_append: "emitted (t @ u) = emitted t @ emitted u"
  by (induction t rule: emitted.induct) simp_all



lemma emitted_visits: "emitted (visits hb args fns) = []"
  by (induction fns) (simp_all add: emitted_append split: option.split)




lemma Set_forEach_no_calls:
  assumes "m event = Some es"
      and "\<forall>h \<in> set (members (drop i es)). fst (hb h args) = []"
      and "length es - i < n"
  shows "Set_forEach n hb event args i m
           = (True, m, visits (\<lambda>h a. snd (hb h a)) args (members (drop i es)))"
  using assms
proof (induction n arbitrary: i)
  case 0
  then show ?case by simp
next
  case (Suc n)
  show ?case
  proof (cases "i < length es")
    case False
    then show ?thesis using Suc.prems(1) by simp
  next
    case True
    have md: "members (drop i es)
               = (case es ! i of None \<Rightarrow> [] | Some h \<Rightarrow> [h]) @ members (drop (Suc i) es)"
      using True by (rule members_drop)
    have rest: "\<forall>h \<in> set (members (drop (Suc i) es)). fst (hb h args) = []"
      using Suc.prems(2) md by simp
    have fuel: "length es - Suc i < n"
      using Suc.prems(3) True by simp
    have ih: "Set_forEach n hb event args (Suc i) m
                = (True, m, visits (\<lambda>h a. snd (hb h a)) args (members (drop (Suc i) es)))"
      using Suc.IH [OF Suc.prems(1) rest fuel] .
    show ?thesis
    proof (cases "es ! i")
      case None
      then show ?thesis using True Suc.prems(1) ih md by simp
    next
      case (Some fn)
      have "fn \<in> set (members (drop i es))" using md Some by simp
      then have quiet: "fst (hb fn args) = []" using Suc.prems(2) by simp
      show ?thesis using True Suc.prems(1) ih md Some quiet by simp
    qed
  qed
qed

lemma Emitter_emit_live_no_calls:
  assumes "m event = Some es"
      and "\<forall>h \<in> set (members es). fst (hb h args) = []"
      and "length es < n"
  shows "Emitter_emit_live n hb m event args
           = (Some (Returns ()), m,
              Emit event args # visits (\<lambda>h a. snd (hb h a)) args (members es))"
  using Set_forEach_no_calls [of m event es 0 hb args n] assms
  by (simp add: Emitter_emit_live_def)

lemma Emitter_emit_plain:
  "Emitter_emit hb m event args =
     (case m event of
        Some es \<Rightarrow> (None, Emit event args # visits hb args (members es))
      | None \<Rightarrow>
          if event \<in> set Object_prototype_keys
          then (Some (TypeError ''forEach is not a function''), [Emit event args])
          else (None, [Emit event args]))"
proof (cases "m event")
  case None
  then show ?thesis by (simp add: Emitter_emit_def Emitter_emit_live_def)
next
  case (Some es)
  have "Emitter_emit_live (Suc (length es)) (no_calls hb) m event args
          = (Some (Returns ()), m,
             Emit event args # visits (\<lambda>h a. snd (no_calls hb h a)) args (members es))"
    using Some by (intro Emitter_emit_live_no_calls) (simp_all add: no_calls_def)
  moreover have "(\<lambda>h a. snd (no_calls hb h a)) = hb"
    by (simp add: no_calls_def)
  ultimately show ?thesis using Some by (simp add: Emitter_emit_def)
qed

lemma emit_accountsChanged:
  "Emitter_emit hb m ''accountsChanged'' args =
     (None, Emit ''accountsChanged'' args
              # visits hb args (case m ''accountsChanged'' of None \<Rightarrow> [] | Some es \<Rightarrow> members es))"
  by (simp add: Emitter_emit_plain Object_prototype_keys_def split: option.split)

lemma emit_chainChanged:
  "Emitter_emit hb m ''chainChanged'' args =
     (None, Emit ''chainChanged'' args
              # visits hb args (case m ''chainChanged'' of None \<Rightarrow> [] | Some es \<Rightarrow> members es))"
  by (simp add: Emitter_emit_plain Object_prototype_keys_def split: option.split)

lemma emitted_emit: "emitted (snd (Emitter_emit hb m event args)) = [(event, args)]"
  by (simp add: Emitter_emit_plain emitted_visits split: option.split)


section \<open>Lemmas about the bridge\<close>

lemma js_get_truthy_object: "js_truthy (js_get v k) \<Longrightarrow> js_truthy v"
  by (cases v) simp_all

lemma callHost_no_bridge:
  "callHandler w = None \<Longrightarrow>
   callHost w b p = Returns (Rejected (JsError ''Bridge not available'' (JNum (- 32603)) None))"
  by (simp add: callHost_def)

lemma callHost_resolves:
  "callHandler w = Some h \<Longrightarrow> h b p = HostResolves raw \<Longrightarrow>
   callHost w b p = Returns (host_then w raw)"
  by (simp add: callHost_def)

lemma Error_message_cases:
  "(\<not> js_truthy msg \<longrightarrow>
      Error_message w (js_or msg (JStr ''Provider error'')) = Inr ''Provider error'')
   \<and> (msg = JStr mtext \<and> mtext \<noteq> [] \<longrightarrow>
      Error_message w (js_or msg (JStr ''Provider error'')) = Inr mtext)
   \<and> (js_truthy msg \<and> js_typeof msg \<noteq> ''string'' \<longrightarrow>
      Error_message w (js_or msg (JStr ''Provider error'')) = ToString w msg)"
  by (cases msg) (auto simp: Error_message_def js_or_def)

lemma host_then_error:
  assumes "decode w raw = Inr resp" and "js_truthy (js_get resp ''error'')"
  shows "host_then w raw =
     Rejected
       (case Error_message w
               (js_or (js_get (js_get resp ''error'') ''message'') (JStr ''Provider error'')) of
          Inl e \<Rightarrow> e
        | Inr m \<Rightarrow>
            JsError m
              (if js_nullish (js_get (js_get resp ''error'') ''code'')
               then JNum (- 32603) else js_get (js_get resp ''error'') ''code'')
              (if js_get (js_get resp ''error'') ''data'' = JUndefined
               then None else Some (js_get (js_get resp ''error'') ''data'')))"
  using assms js_get_truthy_object [OF assms(2)]
  by (simp add: host_then_def js_coalesce_def split: sum.split)

lemma host_then_result:
  assumes "decode w raw = Inr resp" and "js_truthy resp" and "\<not> js_truthy (js_get resp ''error'')"
  shows "host_then w raw = Resolved (js_get resp ''result'')"
  using assms by (simp add: host_then_def)

section \<open>Lemmas about the legacy adapter\<close>

lemma envelope_of_host_error:
  assumes "decode w raw = Inr resp" and "js_truthy (js_get resp ''error'')"
      and "Error_message w
             (js_or (js_get (js_get resp ''error'') ''message'') (JStr ''Provider error'')) = Inr m"
  shows "envelope_of payload (host_then w raw) =
     Resolved
       (ErrorEnvelope (js_get payload ''id'') ''2.0''
          \<lparr>error_code =
             (if js_nullish (js_get (js_get resp ''error'') ''code'')
              then JNum (- 32603) else js_get (js_get resp ''error'') ''code''),
           error_message = JStr m,
           error_data = js_get (js_get resp ''error'') ''data''\<rparr>)"
  using host_then_error [OF assms(1) assms(2)] assms(3)
  by (simp add: envelope_of_def catch_envelope_def js_coalesce_def js_nullish_def)

lemma envelope_of_host_result:
  assumes "decode w raw = Inr resp" and "js_truthy resp" and "\<not> js_truthy (js_get resp ''error'')"
  shows "envelope_of payload (host_then w raw) =
     Resolved (ResultEnvelope (js_get payload ''id'') ''2.0'' (js_get resp ''result''))"
  using host_then_result [OF assms] by (simp add: envelope_of_def)

lemma emitted_notify: "emitted (notify cbb cb p) = []"
  by (simp add: notify_def split: arg2.split promise.split option.split)

lemma send_payload_form:
  assumes "js_typeof payload \<noteq> ''string''" and "\<not> js_nullish payload"
  shows "send w hb cbb s payload a2 =
     (case callHost w (BRIDGE s)
             \<lparr>req_id = js_coalesce (js_get payload ''id'') (JNum (genId w)),
              req_method = js_get payload ''method'',
              req_params = js_get payload ''params''\<rparr> of
        Throws e \<Rightarrow> (Throws e, s, [])
      | Returns q \<Rightarrow>
          (case a2 of
             Fn f \<Rightarrow> (Returns RetUndefined, s, notify cbb a2 (envelope_of payload q))
           | NotFn v \<Rightarrow> (Returns (RetEnvelope (envelope_of payload q)), s, [])))"
  using assms by (simp add: send_def Let_def split: completion.split)

lemma notify_Resolved:
  "notify cbb (Fn f) (Resolved env)
     = Callback f None (Some env)
         # (case cbb f None (Some env) of None \<Rightarrow> [] | Some x \<Rightarrow> [Callback f (Some x) None])"
  by (simp add: notify_def)

lemma error_first_only:
  "Callback f (Some x) None \<in> set (notify cbb (Fn f) (envelope_of payload q)) \<Longrightarrow>
   q = Rejected (Thrown JNull) \<or> q = Rejected (Thrown JUndefined)
   \<or> (\<exists>env. envelope_of payload q = Resolved env \<and> cbb f None (Some env) = Some x)"
proof (cases q)
  case (Resolved result)
  assume "Callback f (Some x) None \<in> set (notify cbb (Fn f) (envelope_of payload q))"
  then show ?thesis
    using Resolved by (auto simp: envelope_of_def notify_def split: option.splits)
next
  case Pending
  assume "Callback f (Some x) None \<in> set (notify cbb (Fn f) (envelope_of payload q))"
  then show ?thesis
    using Pending by (simp add: envelope_of_def notify_def)
next
  case (Rejected err)
  assume a: "Callback f (Some x) None \<in> set (notify cbb (Fn f) (envelope_of payload q))"
  show ?thesis
  proof (cases err)
    case (JsError msg c d)
    then show ?thesis
      using a Rejected
      by (auto simp: envelope_of_def catch_envelope_def notify_def split: option.splits)
  next
    case (Thrown v)
    then show ?thesis
      using a Rejected
      by (auto simp: envelope_of_def catch_envelope_def notify_def js_nullish_def
               split: option.splits if_splits)
  qed
qed

section \<open>Lemmas about account updates and registration\<close>

lemma is_address_string: "is_address v \<Longrightarrow> \<exists>a. v = JStr a"
  by (cases v) simp_all

lemma lower_of_address:
  "v = JNull \<or> is_address v \<Longrightarrow>
   call_toLowerCase (js_or v (JStr [])) = Inr (toLowerCase (address_text v))"
  by (cases v) (auto simp: js_or_def toLowerCase_def)

lemma next_of_address_array:
  "address_array v \<Longrightarrow>
   js_or (js_index0 v) JNull
     = (case js_index0 v of JStr a \<Rightarrow> if a = [] then JNull else JStr a | _ \<Rightarrow> JNull)"
proof (cases v)
  case (JArr r xs)
  assume "address_array v"
  then show ?thesis
    using JArr
    by (cases xs) (auto simp: js_or_def split: jsval.split dest: is_address_string)
qed simp_all

lemma host_next_of_address_array:
  "address_array v \<Longrightarrow> js_and v (js_index0 v) = js_index0 v"
  by (cases v) (simp_all add: js_and_def)

lemma candidate_shape:
  "address_array v \<Longrightarrow>
   (case js_index0 v of JStr a \<Rightarrow> if a = [] then JNull else JStr a | _ \<Rightarrow> JNull) = c \<Longrightarrow>
   (c = JNull \<or> is_address c) \<and> js_truthy c = (c \<noteq> JNull)"
proof (cases v)
  case (JArr r xs)
  assume "address_array v"
    and "(case js_index0 v of JStr a \<Rightarrow> if a = [] then JNull else JStr a | _ \<Rightarrow> JNull) = c"
  then show ?thesis
    using JArr by (cases xs) (auto split: jsval.splits if_splits)
qed simp_all

lemma account_step:
  assumes "selectedAddress s = JNull \<or> is_address (selectedAddress s)"
      and "account_update (BRIDGE s) u"
  shows "deliver hb s u =
     (s\<lparr>selectedAddress := candidate (BRIDGE s) u\<rparr>,
      if toLowerCase (address_text (candidate (BRIDGE s) u))
           \<noteq> toLowerCase (address_text (selectedAddress s))
      then snd (Emitter_emit hb (emitter_m s) ''accountsChanged''
                  [NewArray (if candidate (BRIDGE s) u = JNull then []
                             else [candidate (BRIDGE s) u])])
      else [])
   \<and> (candidate (BRIDGE s) u = JNull \<or> is_address (candidate (BRIDGE s) u))"
proof -
  obtain v where v: "delivered (BRIDGE s) u = Some v" and arr: "address_array v"
    using assms(2) by (auto simp: account_update_def split: option.splits)
  define c where "c = candidate (BRIDGE s) u"
  have c: "(case js_index0 v of JStr a \<Rightarrow> if a = [] then JNull else JStr a | _ \<Rightarrow> JNull) = c"
    using v by (simp add: c_def candidate_def)
  have c_ok: "c = JNull \<or> is_address c" and c_truthy: "js_truthy c = (c \<noteq> JNull)"
    using candidate_shape [OF arr c] by simp_all
  have nxt: "js_or (js_index0 v) JNull = c"
    using next_of_address_array [OF arr] c by simp
  have isarr: "Array_isArray v"
    using arr by (cases v) simp_all
  have host: "snd (emitFromHost hb s ''accountsChanged'' v) =
     (s\<lparr>selectedAddress := c\<rparr>,
      if toLowerCase (address_text c) \<noteq> toLowerCase (address_text (selectedAddress s))
      then snd (Emitter_emit hb (emitter_m s) ''accountsChanged''
                  [NewArray (if c = JNull then [] else [c])])
      else [])"
    using lower_of_address [OF c_ok] lower_of_address [OF assms(1)] c_truthy
    by (simp add: emitFromHost_def host_next_of_address_array [OF arr] nxt Let_def
        emit_accountsChanged)
  have client: "snd (request_then hb s m v) = snd (emitFromHost hb s ''accountsChanged'' v)"
    if "m = JStr ''eth_requestAccounts'' \<or> m = JStr ''eth_accounts''" for m
    using that lower_of_address [OF c_ok] lower_of_address [OF assms(1)] c_truthy isarr
    by (auto simp: request_then_def emitFromHost_def host_next_of_address_array [OF arr] nxt Let_def
        emit_accountsChanged)
  have "deliver hb s u =
     (s\<lparr>selectedAddress := c\<rparr>,
      if toLowerCase (address_text c) \<noteq> toLowerCase (address_text (selectedAddress s))
      then snd (Emitter_emit hb (emitter_m s) ''accountsChanged''
                  [NewArray (if c = JNull then [] else [c])])
      else [])"
  proof (cases u)
    case (ByHost payload)
    then show ?thesis using v host by simp
  next
    case (ByRequest w args)
    have m: "js_get args ''method'' = JStr ''eth_requestAccounts''
             \<or> js_get args ''method'' = JStr ''eth_accounts''"
      using v ByRequest by (auto split: if_splits)
    have notnull: "args \<noteq> JNull"
      using m by auto
    have call: "callHost w (BRIDGE s)
                  \<lparr>req_id = JNum (genId w), req_method = js_get args ''method'',
                   req_params = js_get args ''params''\<rparr>
                = Returns (Resolved v)"
      using v ByRequest m by (auto split: if_splits completion.splits promise.splits)
    have "snd (request w hb s args) = snd (request_then hb s (js_get args ''method'') v)"
      using call notnull
      by (cases "request_then hb s (js_get args ''method'') v") (simp add: request_def)
    then show ?thesis
      using ByRequest client [OF m] host by simp
  qed
  then show ?thesis
    using c_ok by (simp add: c_def)
qed

lemma ethereum_eip6963: "ethereum (eip6963 pid u c win) = ethereum win"
  by (simp add: eip6963_def Let_def)

lemma ethereum_legacy_web3: "ethereum (legacy_web3 pid c win) = ethereum win"
  by (simp add: legacy_web3_def)

lemma initialized_eip6963:
  "count_list (dispatched (eip6963 pid u c win)) EthereumInitialized
     = count_list (dispatched win) EthereumInitialized"
  by (simp add: eip6963_def Let_def)

lemma initialized_legacy_web3: "dispatched (legacy_web3 pid c win) = dispatched win"
  by (simp add: legacy_web3_def)

lemma hasExisting_prepared:
  "hasExisting (eip6963 pid u c (legacy_web3 pid c win)) = hasExisting win"
  by (simp add: hasExisting_def ethereum_eip6963 ethereum_legacy_web3)

lemma inject_skipped:
  "\<not> (autoInject c \<noteq> JBool False \<and> (\<not> hasExisting win \<or> js_truthy (forceReplace c))) \<Longrightarrow>
   inject pid c win = (None, win)"
  by (auto simp: inject_def Let_def)

section \<open>Account change detection\<close>

text \<open>
  Claim C1. Take a provider whose \<^verbatim>\<open>selectedAddress\<close> is \<^verbatim>\<open>null\<close> or an address (a
  string of ASCII units), and any sequence of account updates, each an answered
  \<^verbatim>\<open>eth_requestAccounts\<close> or \<^verbatim>\<open>eth_accounts\<close> request or a push
  \<^verbatim>\<open>_emitFromHost('accountsChanged', ...)\<close>, each delivering an array of addresses. Then
  step by step the run is the one the specification describes: the candidate (the first
  address, \<^verbatim>\<open>null\<close> when there is none) is stored as it is, in its original case, and
  \<^verbatim>\<open>accountsChanged\<close> is emitted, with the list of the stored address, iff the lower-cased
  candidate differs from the lower-cased previous address (\<^verbatim>\<open>null\<close> read as the empty
  string); otherwise nothing is emitted.
\<close>

theorem account_change_detection:
  assumes "selectedAddress s = JNull \<or> is_address (selectedAddress s)"
      and "list_all (account_update (BRIDGE s)) us"
  shows "map (\<lambda>(a, t). (a, emitted t)) (run_updates hb s us)
           = spec_updates (selectedAddress s) (map (candidate (BRIDGE s)) us)"
  using assms
proof (induction us arbitrary: s)
  case Nil
  show ?case by simp
next
  case (Cons u us)
  define s' where "s' = s\<lparr>selectedAddress := candidate (BRIDGE s) u\<rparr>"
  have upd: "account_update (BRIDGE s) u" and rest: "list_all (account_update (BRIDGE s)) us"
    using Cons.prems(2) by simp_all
  note st = account_step [OF Cons.prems(1) upd, of hb]
  have step: "deliver hb s u =
     (s',
      if toLowerCase (address_text (candidate (BRIDGE s) u))
           \<noteq> toLowerCase (address_text (selectedAddress s))
      then snd (Emitter_emit hb (emitter_m s) ''accountsChanged''
                  [NewArray (if candidate (BRIDGE s) u = JNull then []
                             else [candidate (BRIDGE s) u])])
      else [])"
    using st by (simp add: s'_def)
  have b: "BRIDGE s' = BRIDGE s" and sel: "selectedAddress s' = candidate (BRIDGE s) u"
    by (simp_all add: s'_def)
  have ok: "selectedAddress s' = JNull \<or> is_address (selectedAddress s')"
    unfolding sel using st by simp
  have ih: "map (\<lambda>(a, t). (a, emitted t)) (run_updates hb s' us)
              = spec_updates (selectedAddress s') (map (candidate (BRIDGE s)) us)"
    using Cons.IH [OF ok] rest by (simp add: b)
  show ?case
    by (simp add: step ih sel emitted_emit)
qed

theorem account_change_detection_witness:
  "map (\<lambda>(a, t). (a, emitted t))
     (run_updates second_throws
        (fresh_state\<lparr>emitter_m := [''accountsChanged'' \<mapsto> [Some 1, Some 2]]\<rparr>)
        [ByHost (JArr 1 [JStr ''0xAbC'', JStr ''0xEe'']),
         ByRequest (page_answering (JObj 2 [(''result'', JArr 3 [JStr ''0xabc''])]))
           (JObj 8 [(''method'', JStr ''eth_accounts'')]),
         ByRequest (page_answering (JObj 4 [(''result'', JArr 5 [JStr ''0xDD''])]))
           (JObj 9 [(''method'', JStr ''eth_requestAccounts'')]),
         ByHost (JArr 6 [JStr ''0xDD'']),
         ByHost (JArr 7 [])])
   = [(JStr ''0xAbC'', [(''accountsChanged'', [NewArray [JStr ''0xAbC'']])]),
      (JStr ''0xabc'', []),
      (JStr ''0xDD'', [(''accountsChanged'', [NewArray [JStr ''0xDD'']])]),
      (JStr ''0xDD'', []),
      (JNull, [(''accountsChanged'', [NewArray []])])]"
  using account_change_detection [of
      "fresh_state\<lparr>emitter_m := [''accountsChanged'' \<mapsto> [Some 1, Some 2]]\<rparr>"
      "[ByHost (JArr 1 [JStr ''0xAbC'', JStr ''0xEe'']),
        ByRequest (page_answering (JObj 2 [(''result'', JArr 3 [JStr ''0xabc''])]))
          (JObj 8 [(''method'', JStr ''eth_accounts'')]),
        ByRequest (page_answering (JObj 4 [(''result'', JArr 5 [JStr ''0xDD''])]))
          (JObj 9 [(''method'', JStr ''eth_requestAccounts'')]),
        ByHost (JArr 6 [JStr ''0xDD'']),
        ByHost (JArr 7 [])]"
      second_throws]
  by (simp add: fresh_state_def account_update_def candidate_def callHost_def host_then_def
      decode_def page_answering_def answers_def toLowerCase_def is_upper_def is_ascii_def)

section \<open>The two update paths\<close>

text \<open>
  Claim C2. From any provider state, with any handlers: when the host answers an
  \<^verbatim>\<open>eth_accounts\<close> (or \<^verbatim>\<open>eth_requestAccounts\<close>) request with an array, the state and the
  effects that \<^verbatim>\<open>request\<close> leaves are those that
  \<^verbatim>\<open>_emitFromHost('accountsChanged', array)\<close> leaves on the same state: the same
  \<^verbatim>\<open>selectedAddress\<close> and \<^verbatim>\<open>chainId\<close>, and the same \<^verbatim>\<open>accountsChanged\<close> emission with the
  same argument, or none in both.
\<close>

theorem paths_converge:
  assumes "js_get args ''method'' = JStr ''eth_accounts''
           \<or> js_get args ''method'' = JStr ''eth_requestAccounts''"
      and "callHost w (BRIDGE s)
             \<lparr>req_id = JNum (genId w), req_method = js_get args ''method'',
              req_params = js_get args ''params''\<rparr>
             = Returns (Resolved (JArr r xs))"
  shows "snd (request w hb s args)
           = snd (emitFromHost hb s ''accountsChanged'' (JArr r xs))"
proof -
  have notnull: "args \<noteq> JNull"
    using assms(1) by auto
  have "snd (request_then hb s (js_get args ''method'') (JArr r xs))
          = snd (emitFromHost hb s ''accountsChanged'' (JArr r xs))"
    using assms(1)
    by (auto simp: request_then_def emitFromHost_def js_and_def Let_def emit_accountsChanged
             split: sum.splits)
  moreover have "snd (request w hb s args)
                   = snd (request_then hb s (js_get args ''method'') (JArr r xs))"
    using assms(2) notnull
    by (cases "request_then hb s (js_get args ''method'') (JArr r xs)") (simp add: request_def)
  ultimately show ?thesis by simp
qed

theorem paths_converge_witness:
  "snd (request (page_answering (JObj 2 [(''result'', JArr 3 [JStr ''0xAb''])])) quiet fresh_state
          (JObj 4 [(''method'', JStr ''eth_accounts'')]))
     = (fresh_state\<lparr>selectedAddress := JStr ''0xAb''\<rparr>,
        [Emit ''accountsChanged'' [NewArray [JStr ''0xAb'']]])
   \<and> snd (emitFromHost quiet fresh_state ''accountsChanged'' (JArr 3 [JStr ''0xAb'']))
     = (fresh_state\<lparr>selectedAddress := JStr ''0xAb''\<rparr>,
        [Emit ''accountsChanged'' [NewArray [JStr ''0xAb'']]])"
  using paths_converge [of "JObj 4 [(''method'', JStr ''eth_accounts'')]"
      "page_answering (JObj 2 [(''result'', JArr 3 [JStr ''0xAb''])])" fresh_state
      3 "[JStr ''0xAb'']" quiet]
  by (simp add: callHost_def host_then_def decode_def page_answering_def answers_def
      fresh_state_def emitFromHost_def js_and_def js_or_def Let_def toLowerCase_def is_upper_def
      emit_accountsChanged)

section \<open>Errors of the bridge\<close>

text \<open>
  Claim C3, as the code has it. When \<^verbatim>\<open>window.flutter_inappwebview?.callHandler\<close> is
  missing, every call of \<^verbatim>\<open>request\<close> whose argument is not \<^verbatim>\<open>null\<close> (a request object,
  any other value, or no argument at all) returns, without throwing, a promise that is
  rejected with the error \<^verbatim>\<open>Bridge not available\<close> of code \<^verbatim>\<open>-32603\<close>; the state is
  untouched and nothing is emitted.
\<close>

theorem bridge_unavailable:
  assumes "callHandler w = None" and "args \<noteq> JNull"
  shows "request w hb s args =
           (Returns (Rejected (JsError ''Bridge not available'' (JNum (- 32603)) None)), s, [])"
  using assms by (simp add: request_def callHost_no_bridge)

theorem bridge_unavailable_witness:
  "request page_without_bridge quiet fresh_state
      (JObj 1 [(''method'', JStr ''eth_chainId'')]) =
     (Returns (Rejected (JsError ''Bridge not available'' (JNum (- 32603)) None)), fresh_state, [])
   \<and> request page_without_bridge quiet fresh_state JUndefined =
     (Returns (Rejected (JsError ''Bridge not available'' (JNum (- 32603)) None)), fresh_state, [])"
  using bridge_unavailable [of page_without_bridge "JObj 1 [(''method'', JStr ''eth_chainId'')]"
          quiet fresh_state]
        bridge_unavailable [of page_without_bridge JUndefined quiet fresh_state]
  by (simp add: page_without_bridge_def)

text \<open>
  The claim as stated speaks of every call. The call \<^verbatim>\<open>request(null)\<close> fails at the
  parameter pattern \<^verbatim>\<open>{ method, params }\<close> and throws a \<^verbatim>\<open>TypeError\<close> synchronously,
  with or without a bridge.
\<close>

theorem bridge_unavailable_counterexample:
  "callHandler page_without_bridge = None
   \<and> request page_without_bridge quiet fresh_state JNull =
       (Throws (TypeError ''Cannot destructure property method of null''), fresh_state, [])"
  by (simp add: request_def page_without_bridge_def)

text \<open>
  Claim C4, as the code has it. When the host resolves a call of \<^verbatim>\<open>request\<close> (argument
  not \<^verbatim>\<open>null\<close>) with a response whose decoded form has a truthy \<^verbatim>\<open>error\<close> field (every
  error object is truthy), \<^verbatim>\<open>request\<close> returns a rejected promise, leaves the state
  untouched and emits nothing. The error's code is the host's \<^verbatim>\<open>error.code\<close>, or
  \<^verbatim>\<open>-32603\<close> when that is \<^verbatim>\<open>undefined\<close> or \<^verbatim>\<open>null\<close>; it has a \<^verbatim>\<open>data\<close> property exactly
  when the host's \<^verbatim>\<open>error.data\<close> is not \<^verbatim>\<open>undefined\<close>. Its message is
  \<^verbatim>\<open>Provider error\<close> when the host's \<^verbatim>\<open>error.message\<close> is falsy (empty or missing), the
  host's message when that is a non-empty string, and the engine's string conversion of
  it when it is a truthy value of another type; when that conversion throws, the
  promise is rejected with what it throws.
\<close>

theorem host_error_passthrough:
  assumes "callHandler w = Some h"
      and "args \<noteq> JNull"
      and "h (BRIDGE s)
             \<lparr>req_id = JNum (genId w), req_method = js_get args ''method'',
              req_params = js_get args ''params''\<rparr> = HostResolves raw"
      and "decode w raw = Inr resp"
      and "js_truthy (js_get resp ''error'')"
  shows
    "(let err = js_get resp ''error'';
          msg = js_get err ''message'';
          code = (if js_nullish (js_get err ''code'') then JNum (- 32603) else js_get err ''code'');
          data = (if js_get err ''data'' = JUndefined then None else Some (js_get err ''data''))
      in (\<not> js_truthy msg \<longrightarrow>
            request w hb s args
              = (Returns (Rejected (JsError ''Provider error'' code data)), s, []))
       \<and> (msg = JStr mtext \<and> mtext \<noteq> [] \<longrightarrow>
            request w hb s args = (Returns (Rejected (JsError mtext code data)), s, []))
       \<and> (js_truthy msg \<and> js_typeof msg \<noteq> ''string'' \<longrightarrow>
            request w hb s args
              = (Returns (Rejected
                   (case ToString w msg of Inl e \<Rightarrow> e | Inr m \<Rightarrow> JsError m code data)),
                 s, [])))"
proof -
  have r: "request w hb s args = (Returns (host_then w raw), s, [])"
    using assms(2) callHost_resolves [OF assms(1) assms(3)] host_then_error [OF assms(4) assms(5)]
    by (simp add: request_def)
  note e = host_then_error [OF assms(4) assms(5)]
  show ?thesis
    using Error_message_cases [of "js_get (js_get resp ''error'') ''message''" w mtext]
    by (auto simp: r e Let_def)
qed

theorem host_error_passthrough_witness:
  "request
     (page_answering
        (JObj 1 [(''error'', JObj 2 [(''code'', JNum 4001), (''message'', JStr ''User rejected'')])]))
     quiet fresh_state (JObj 3 [(''method'', JStr ''eth_requestAccounts'')])
   = (Returns (Rejected (JsError ''User rejected'' (JNum 4001) None)), fresh_state, [])"
  using host_error_passthrough [where
      w = "page_answering
        (JObj 1 [(''error'', JObj 2 [(''code'', JNum 4001), (''message'', JStr ''User rejected'')])])"
      and h = "answers
        (JObj 1 [(''error'', JObj 2 [(''code'', JNum 4001), (''message'', JStr ''User rejected'')])])"
      and args = "JObj 3 [(''method'', JStr ''eth_requestAccounts'')]"
      and s = fresh_state
      and raw =
        "JObj 1 [(''error'', JObj 2 [(''code'', JNum 4001), (''message'', JStr ''User rejected'')])]"
      and resp =
        "JObj 1 [(''error'', JObj 2 [(''code'', JNum 4001), (''message'', JStr ''User rejected'')])]"
      and mtext = "''User rejected''" and hb = quiet]
  by (simp add: page_answering_def answers_def decode_def js_nullish_def Let_def)

text \<open>
  The claim as stated says that the message is always the host's. The host response
  \<^verbatim>\<open>{error: {code: 4001, message: ''}}\<close> has the empty message, and the rejection carries
  \<^verbatim>\<open>Provider error\<close>.
\<close>

theorem host_error_message_counterexample:
  "js_get (js_get (JObj 1 [(''error'', JObj 2 [(''code'', JNum 4001), (''message'', JStr '''')])])
             ''error'') ''message'' = JStr ''''
   \<and> fst (request
         (page_answering
            (JObj 1 [(''error'', JObj 2 [(''code'', JNum 4001), (''message'', JStr '''')])]))
         quiet fresh_state (JObj 3 [(''method'', JStr ''eth_requestAccounts'')]))
       = Returns (Rejected (JsError ''Provider error'' (JNum 4001) None))
   \<and> fst (request
         (page_answering
            (JObj 1 [(''error'', JObj 2 [(''code'', JNum 4001), (''message'', JStr '''')])]))
         quiet fresh_state (JObj 3 [(''method'', JStr ''eth_requestAccounts'')]))
       \<noteq> Returns (Rejected (JsError '''' (JNum 4001) None))"
  by (simp add: request_def callHost_def host_then_def decode_def page_answering_def answers_def
      Error_message_def js_or_def js_coalesce_def js_nullish_def fresh_state_def)

section \<open>The legacy adapter\<close>

text \<open>
  Claim C5. \<^verbatim>\<open>send\<close> with a payload that is no string (and not \<^verbatim>\<open>null\<close> or
  \<^verbatim>\<open>undefined\<close>) and no callback, answered by the host, returns a promise of an
  envelope that echoes the payload's \<^verbatim>\<open>id\<close> and has \<^verbatim>\<open>jsonrpc\<close> \<^verbatim>\<open>2.0\<close>. When the
  host's decoded response has no truthy \<^verbatim>\<open>error\<close>, the envelope holds its \<^verbatim>\<open>result\<close>.
  When it has one, the envelope holds \<^verbatim>\<open>error: {code, message, data}\<close>: the host's code
  (\<^verbatim>\<open>-32603\<close> for \<^verbatim>\<open>undefined\<close> and \<^verbatim>\<open>null\<close>), the host's data, and as message
  \<^verbatim>\<open>Provider error\<close> for a falsy host message, the host's message when it is a non-empty
  string, and its string conversion when it is a truthy value of another type that the
  engine converts. For \<^verbatim>\<open>{id: 7, method: 'eth_chainId'}\<close> and the host result \<^verbatim>\<open>'0x1'\<close>
  this is \<^verbatim>\<open>{id: 7, jsonrpc: '2.0', result: '0x1'}\<close>.
\<close>

theorem legacy_envelope_roundtrip:
  assumes "js_typeof payload \<noteq> ''string''" and "\<not> js_nullish payload"
      and "callHandler w = Some h"
      and "h (BRIDGE s)
             \<lparr>req_id = js_coalesce (js_get payload ''id'') (JNum (genId w)),
              req_method = js_get payload ''method'',
              req_params = js_get payload ''params''\<rparr> = HostResolves raw"
      and "decode w raw = Inr resp" and "js_truthy resp"
  shows
    "(let err = js_get resp ''error'';
          msg = js_get err ''message'';
          error_envelope = (\<lambda>m.
            (Returns (RetEnvelope (Resolved (ErrorEnvelope (js_get payload ''id'') ''2.0''
               \<lparr>error_code =
                  (if js_nullish (js_get err ''code'') then JNum (- 32603)
                   else js_get err ''code''),
                error_message = JStr m,
                error_data = js_get err ''data''\<rparr>))),
             s, []))
      in (\<not> js_truthy err \<longrightarrow>
            send w hb cbb s payload (NotFn v) =
              (Returns (RetEnvelope (Resolved
                 (ResultEnvelope (js_get payload ''id'') ''2.0'' (js_get resp ''result'')))),
               s, []))
       \<and> (js_truthy err \<and> \<not> js_truthy msg \<longrightarrow>
            send w hb cbb s payload (NotFn v) = error_envelope ''Provider error'')
       \<and> (js_truthy err \<and> msg = JStr mtext \<and> mtext \<noteq> [] \<longrightarrow>
            send w hb cbb s payload (NotFn v) = error_envelope mtext)
       \<and> (js_truthy err \<and> js_truthy msg \<and> js_typeof msg \<noteq> ''string''
             \<and> ToString w msg = Inr converted \<longrightarrow>
            send w hb cbb s payload (NotFn v) = error_envelope converted))"
proof -
  have s: "send w hb cbb s payload (NotFn v)
             = (Returns (RetEnvelope (envelope_of payload (host_then w raw))), s, [])"
    using send_payload_form [OF assms(1) assms(2), of w hb cbb s "NotFn v"]
          callHost_resolves [OF assms(3) assms(4)]
    by simp
  note res = envelope_of_host_result [OF assms(5) assms(6)]
  note err = envelope_of_host_error [OF assms(5)]
  note em = Error_message_cases [of "js_get (js_get resp ''error'') ''message''" w mtext]
  show ?thesis
    unfolding Let_def s
    using res err em by auto
qed

theorem legacy_envelope_roundtrip_witness:
  "send (page_answering (JObj 2 [(''result'', JStr ''0x1'')])) quiet calm fresh_state
      (JObj 1 [(''id'', JNum 7), (''method'', JStr ''eth_chainId'')]) (NotFn JUndefined)
     = (Returns (RetEnvelope (Resolved (ResultEnvelope (JNum 7) ''2.0'' (JStr ''0x1'')))),
        fresh_state, [])
   \<and> send (page_answering
              (JObj 2 [(''error'', JObj 3 [(''code'', JNum 4001), (''message'', JStr ''User rejected''),
                                          (''data'', JStr ''0xdead'')])]))
        quiet calm fresh_state
        (JObj 1 [(''id'', JNum 7), (''method'', JStr ''eth_chainId'')]) (NotFn JUndefined)
     = (Returns (RetEnvelope (Resolved (ErrorEnvelope (JNum 7) ''2.0''
          \<lparr>error_code = JNum 4001, error_message = JStr ''User rejected'',
           error_data = JStr ''0xdead''\<rparr>))),
        fresh_state, [])"
  using legacy_envelope_roundtrip [where
      payload = "JObj 1 [(''id'', JNum 7), (''method'', JStr ''eth_chainId'')]"
      and w = "page_answering (JObj 2 [(''result'', JStr ''0x1'')])"
      and h = "answers (JObj 2 [(''result'', JStr ''0x1'')])"
      and s = fresh_state
      and raw = "JObj 2 [(''result'', JStr ''0x1'')]"
      and resp = "JObj 2 [(''result'', JStr ''0x1'')]"
      and hb = quiet and cbb = calm and v = JUndefined and mtext = "[]" and converted = "[]"]
    legacy_envelope_roundtrip [where
      payload = "JObj 1 [(''id'', JNum 7), (''method'', JStr ''eth_chainId'')]"
      and w = "page_answering
         (JObj 2 [(''error'', JObj 3 [(''code'', JNum 4001), (''message'', JStr ''User rejected''),
                                     (''data'', JStr ''0xdead'')])])"
      and h = "answers
         (JObj 2 [(''error'', JObj 3 [(''code'', JNum 4001), (''message'', JStr ''User rejected''),
                                     (''data'', JStr ''0xdead'')])])"
      and s = fresh_state
      and raw = "JObj 2 [(''error'', JObj 3 [(''code'', JNum 4001),
                   (''message'', JStr ''User rejected''), (''data'', JStr ''0xdead'')])]"
      and resp = "JObj 2 [(''error'', JObj 3 [(''code'', JNum 4001),
                   (''message'', JStr ''User rejected''), (''data'', JStr ''0xdead'')])]"
      and hb = quiet and cbb = calm and v = JUndefined and mtext = "''User rejected''"
      and converted = "[]"]
  by (simp add: page_answering_def answers_def decode_def js_nullish_def Let_def)

text \<open>
  Claim C6, as the code has it. Take \<^verbatim>\<open>send\<close> in its payload form (a first argument
  that is no string and not \<^verbatim>\<open>null\<close> or \<^verbatim>\<open>undefined\<close>) with a function as second
  argument; \<^verbatim>\<open>sendAsync\<close> calls its callback in the same way. When the bridge
  call throws synchronously, \<^verbatim>\<open>send\<close> throws and the callback is not called. Otherwise
  \<^verbatim>\<open>send\<close> returns \<^verbatim>\<open>undefined\<close> (no promise); the callback is not called while the
  bridge's promise is pending; it is called as \<^verbatim>\<open>(null, envelope)\<close> with the result
  envelope when the bridge call succeeds, and with the error envelope when the bridge
  call fails with an error or with any value but \<^verbatim>\<open>null\<close> and \<^verbatim>\<open>undefined\<close>. A call
  \<^verbatim>\<open>(error, null)\<close> happens only in two cases: the bridge's promise was rejected with
  \<^verbatim>\<open>null\<close> or \<^verbatim>\<open>undefined\<close>, so that no envelope can be built (it is then the only
  call); or the call \<^verbatim>\<open>(null, envelope)\<close> threw, and the callback is called once more
  with what it threw.
\<close>

theorem legacy_callback_convention:
  assumes "js_typeof payload \<noteq> ''string''" and "\<not> js_nullish payload"
  shows
    "(let call = callHost w (BRIDGE s)
                   \<lparr>req_id = js_coalesce (js_get payload ''id'') (JNum (genId w)),
                    req_method = js_get payload ''method'',
                    req_params = js_get payload ''params''\<rparr>;
          run = send w hb cbb s payload (Fn f);
          calls = (\<lambda>env.
            Callback f None (Some env)
              # (case cbb f None (Some env) of
                   None \<Rightarrow> []
                 | Some x \<Rightarrow> [Callback f (Some x) None]))
      in snd (snd (sendAsync w cbb s payload (Fn f))) = snd (snd run)
       \<and> (call = Throws e \<longrightarrow> run = (Throws e, s, []))
       \<and> (call = Returns Pending \<longrightarrow> run = (Returns RetUndefined, s, []))
       \<and> (call = Returns (Resolved result) \<longrightarrow>
            run = (Returns RetUndefined, s,
                   calls (ResultEnvelope (js_get payload ''id'') ''2.0'' result)))
       \<and> (call = Returns (Rejected (JsError msg c d)) \<longrightarrow>
            run = (Returns RetUndefined, s,
                   calls (ErrorEnvelope (js_get payload ''id'') ''2.0''
                      \<lparr>error_code = js_coalesce c (JNum (- 32603)),
                       error_message = JStr msg,
                       error_data = (case d of Some v \<Rightarrow> v | None \<Rightarrow> JUndefined)\<rparr>)))
       \<and> (call = Returns (Rejected (Thrown v)) \<and> \<not> js_nullish v \<longrightarrow>
            run = (Returns RetUndefined, s,
                   calls (ErrorEnvelope (js_get payload ''id'') ''2.0''
                      \<lparr>error_code = js_coalesce (js_get v ''code'') (JNum (- 32603)),
                       error_message = js_get v ''message'',
                       error_data = js_get v ''data''\<rparr>)))
       \<and> (call = Returns (Rejected (Thrown v)) \<and> js_nullish v \<longrightarrow>
            run = (Returns RetUndefined, s,
                   [Callback f (Some (TypeError ''Cannot read properties of null or undefined''))
                      None]))
       \<and> (Callback f (Some x) None \<in> set (snd (snd run)) \<longrightarrow>
            call = Returns (Rejected (Thrown JNull))
            \<or> call = Returns (Rejected (Thrown JUndefined))
            \<or> (\<exists>env. cbb f None (Some env) = Some x
                      \<and> Callback f None (Some env) \<in> set (snd (snd run)))))"
proof -
  define call where "call = callHost w (BRIDGE s)
                   \<lparr>req_id = js_coalesce (js_get payload ''id'') (JNum (genId w)),
                    req_method = js_get payload ''method'',
                    req_params = js_get payload ''params''\<rparr>"
  have a: "send w hb cbb s payload (Fn f) =
     (case call of
        Throws e \<Rightarrow> (Throws e, s, [])
      | Returns q \<Rightarrow> (Returns RetUndefined, s, notify cbb (Fn f) (envelope_of payload q)))"
    using send_payload_form [OF assms(1) assms(2), of w hb cbb s "Fn f"]
    by (simp add: call_def split: completion.split)
  have b: "sendAsync w cbb s payload (Fn f) =
     (case call of
        Throws e \<Rightarrow> (Throws e, s, [])
      | Returns q \<Rightarrow> (Returns (), s, notify cbb (Fn f) (envelope_of payload q)))"
    using assms(2) by (simp add: sendAsync_def call_def split: completion.split)
  have same: "snd (snd (sendAsync w cbb s payload (Fn f))) = snd (snd (send w hb cbb s payload (Fn f)))"
    by (simp add: a b split: completion.split)
  have only: "Callback f (Some x) None \<in> set (snd (snd (send w hb cbb s payload (Fn f)))) \<longrightarrow>
            call = Returns (Rejected (Thrown JNull))
            \<or> call = Returns (Rejected (Thrown JUndefined))
            \<or> (\<exists>env. cbb f None (Some env) = Some x
                      \<and> Callback f None (Some env)
                           \<in> set (snd (snd (send w hb cbb s payload (Fn f)))))"
  proof (cases call)
    case (Throws e')
    then show ?thesis by (simp add: a)
  next
    case (Returns q)
    show ?thesis
    proof
      assume "Callback f (Some x) None \<in> set (snd (snd (send w hb cbb s payload (Fn f))))"
      then have "Callback f (Some x) None \<in> set (notify cbb (Fn f) (envelope_of payload q))"
        using Returns by (simp add: a)
      then have "q = Rejected (Thrown JNull) \<or> q = Rejected (Thrown JUndefined)
         \<or> (\<exists>env. envelope_of payload q = Resolved env \<and> cbb f None (Some env) = Some x)"
        by (rule error_first_only)
      then show "call = Returns (Rejected (Thrown JNull))
            \<or> call = Returns (Rejected (Thrown JUndefined))
            \<or> (\<exists>env. cbb f None (Some env) = Some x
                      \<and> Callback f None (Some env)
                           \<in> set (snd (snd (send w hb cbb s payload (Fn f)))))"
        using Returns by (auto simp: a notify_Resolved)
    qed
  qed
  have cases: "(call = Throws e \<longrightarrow> send w hb cbb s payload (Fn f) = (Throws e, s, []))
       \<and> (call = Returns Pending \<longrightarrow> send w hb cbb s payload (Fn f) = (Returns RetUndefined, s, []))
       \<and> (call = Returns (Resolved result) \<longrightarrow>
            send w hb cbb s payload (Fn f) = (Returns RetUndefined, s,
                   notify cbb (Fn f)
                     (Resolved (ResultEnvelope (js_get payload ''id'') ''2.0'' result))))
       \<and> (call = Returns (Rejected (JsError msg c d)) \<longrightarrow>
            send w hb cbb s payload (Fn f) = (Returns RetUndefined, s,
                   notify cbb (Fn f) (Resolved (ErrorEnvelope (js_get payload ''id'') ''2.0''
                      \<lparr>error_code = js_coalesce c (JNum (- 32603)),
                       error_message = JStr msg,
                       error_data = (case d of Some v \<Rightarrow> v | None \<Rightarrow> JUndefined)\<rparr>))))
       \<and> (call = Returns (Rejected (Thrown v)) \<and> \<not> js_nullish v \<longrightarrow>
            send w hb cbb s payload (Fn f) = (Returns RetUndefined, s,
                   notify cbb (Fn f) (Resolved (ErrorEnvelope (js_get payload ''id'') ''2.0''
                      \<lparr>error_code = js_coalesce (js_get v ''code'') (JNum (- 32603)),
                       error_message = js_get v ''message'',
                       error_data = js_get v ''data''\<rparr>))))
       \<and> (call = Returns (Rejected (Thrown v)) \<and> js_nullish v \<longrightarrow>
            send w hb cbb s payload (Fn f) = (Returns RetUndefined, s,
                   [Callback f (Some (TypeError ''Cannot read properties of null or undefined''))
                      None]))"
    by (auto simp: a envelope_of_def catch_envelope_def notify_def)
  show ?thesis
    unfolding Let_def call_def [symmetric]
    using same only cases by (simp add: notify_Resolved)
qed

theorem legacy_callback_convention_witness:
  "send page_without_bridge quiet calm fresh_state
      (JObj 1 [(''id'', JNum 7), (''method'', JStr ''eth_chainId'')]) (Fn 0)
     = (Returns RetUndefined, fresh_state,
        [Callback 0 None
           (Some (ErrorEnvelope (JNum 7) ''2.0''
              \<lparr>error_code = JNum (- 32603), error_message = JStr ''Bridge not available'',
               error_data = JUndefined\<rparr>))])
   \<and> send (page_answering (JObj 2 [(''result'', JStr ''0x1'')])) quiet calm fresh_state
      (JObj 1 [(''id'', JNum 7), (''method'', JStr ''eth_chainId'')]) (Fn 0)
     = (Returns RetUndefined, fresh_state,
        [Callback 0 None (Some (ResultEnvelope (JNum 7) ''2.0'' (JStr ''0x1'')))])"
  using legacy_callback_convention [where
      payload = "JObj 1 [(''id'', JNum 7), (''method'', JStr ''eth_chainId'')]"
      and w = page_without_bridge and s = fresh_state and hb = quiet and cbb = calm and f = 0
      and msg = "''Bridge not available''" and c = "JNum (- 32603)" and d = None
      and result = JUndefined and v = JUndefined and e = "Thrown JNull" and x = "Thrown JNull"]
    legacy_callback_convention [where
      payload = "JObj 1 [(''id'', JNum 7), (''method'', JStr ''eth_chainId'')]"
      and w = "page_answering (JObj 2 [(''result'', JStr ''0x1'')])"
      and s = fresh_state and hb = quiet and cbb = calm and f = 0
      and msg = "[]" and c = JUndefined and d = None
      and result = "JStr ''0x1''" and v = JUndefined and e = "Thrown JNull" and x = "Thrown JNull"]
  by (simp add: callHost_def host_then_def decode_def page_answering_def answers_def
      page_without_bridge_def js_coalesce_def js_nullish_def calm_def Let_def fresh_state_def)

text \<open>
  The claim as stated says that a failing bridge call makes the callback run as
  \<^verbatim>\<open>(error, null)\<close>. With no bridge, the bridge call fails, and the callback of \<^verbatim>\<open>send\<close>
  and of \<^verbatim>\<open>sendAsync\<close> runs once, as \<^verbatim>\<open>(null, envelope)\<close> with the error inside the
  envelope.
\<close>

theorem legacy_callback_counterexample:
  "callHost page_without_bridge (BRIDGE fresh_state)
      \<lparr>req_id = JNum 7, req_method = JStr ''eth_chainId'', req_params = JUndefined\<rparr>
     = Returns (Rejected (JsError ''Bridge not available'' (JNum (- 32603)) None))
   \<and> snd (snd (send page_without_bridge quiet calm fresh_state
        (JObj 1 [(''id'', JNum 7), (''method'', JStr ''eth_chainId'')]) (Fn 0)))
     = [Callback 0 None
          (Some (ErrorEnvelope (JNum 7) ''2.0''
             \<lparr>error_code = JNum (- 32603), error_message = JStr ''Bridge not available'',
              error_data = JUndefined\<rparr>))]
   \<and> snd (snd (send page_without_bridge quiet calm fresh_state
        (JObj 1 [(''id'', JNum 7), (''method'', JStr ''eth_chainId'')]) (Fn 0)))
     \<noteq> [Callback 0 (Some (JsError ''Bridge not available'' (JNum (- 32603)) None)) None]
   \<and> snd (snd (sendAsync page_without_bridge calm fresh_state
        (JObj 1 [(''id'', JNum 7), (''method'', JStr ''eth_chainId'')]) (Fn 0)))
     \<noteq> [Callback 0 (Some (JsError ''Bridge not available'' (JNum (- 32603)) None)) None]"
  by (simp add: send_def sendAsync_def callHost_def page_without_bridge_def
      js_coalesce_def js_nullish_def envelope_of_def catch_envelope_def notify_def calm_def Let_def)

text \<open>
  Claim C7. \<^verbatim>\<open>send\<close> and \<^verbatim>\<open>sendAsync\<close> with a first argument that is no string (a
  JSON-RPC payload) leave the provider's state as it was and call \<^verbatim>\<open>emitter.emit\<close> not
  at all, whatever the payload's method is, whatever the host does and whatever the
  second argument is.
\<close>

theorem send_payload_frame:
  assumes "js_typeof payload \<noteq> ''string''"
  shows "fst (snd (send w hb cbb s payload a2)) = s
       \<and> emitted (snd (snd (send w hb cbb s payload a2))) = []
       \<and> fst (snd (sendAsync w cbb s payload a2)) = s
       \<and> emitted (snd (snd (sendAsync w cbb s payload a2))) = []"
  using assms
  by (simp add: send_def sendAsync_def Let_def emitted_notify
           split: completion.split arg2.split)

theorem send_payload_frame_witness:
  "send (page_answering (JObj 2 [(''result'', JArr 3 [JStr ''0xAb''])])) quiet calm fresh_state
      (JObj 1 [(''id'', JNum 7), (''method'', JStr ''eth_accounts'')]) (Fn 0)
     = (Returns RetUndefined, fresh_state,
        [Callback 0 None
           (Some (ResultEnvelope (JNum 7) ''2.0'' (JArr 3 [JStr ''0xAb''])))])
   \<and> emitted (snd (snd (send (page_answering (JObj 2 [(''result'', JArr 3 [JStr ''0xAb''])]))
        quiet calm fresh_state
        (JObj 1 [(''id'', JNum 7), (''method'', JStr ''eth_accounts'')]) (Fn 0)))) = []"
  using send_payload_frame [of
      "JObj 1 [(''id'', JNum 7), (''method'', JStr ''eth_accounts'')]"
      "page_answering (JObj 2 [(''result'', JArr 3 [JStr ''0xAb''])])"
      quiet calm fresh_state "Fn 0"]
  by (simp add: send_def callHost_def host_then_def decode_def page_answering_def answers_def
      js_or_def js_coalesce_def js_nullish_def envelope_of_def notify_def calm_def Let_def)

section \<open>The event bus\<close>




section \<open>Registration\<close>

text \<open>
  Claim C9. When \<^verbatim>\<open>window.ethereum\<close> already holds a provider (a truthy value) and
  \<^verbatim>\<open>forceReplace\<close> is not set, the factory returns its new provider, leaves
  \<^verbatim>\<open>window.ethereum\<close> as it was, and dispatches no \<^verbatim>\<open>ethereum#initialized\<close>. In general
  \<^verbatim>\<open>window.ethereum\<close> changes, or \<^verbatim>\<open>ethereum#initialized\<close> is dispatched, only when
  \<^verbatim>\<open>autoInject\<close> is not \<^verbatim>\<open>false\<close> and either nothing truthy is installed or
  \<^verbatim>\<open>forceReplace\<close> is set. So a second run of the factory after a first one that
  installed keeps the first provider and the single signal.
\<close>

theorem no_double_install:
  "(hasExisting win \<and> \<not> js_truthy (forceReplace c) \<longrightarrow>
      fst (createEip1193Provider pid u c win) = Returns (new_provider pid c)
      \<and> ethereum (snd (createEip1193Provider pid u c win)) = ethereum win
      \<and> count_list (dispatched (snd (createEip1193Provider pid u c win))) EthereumInitialized
          = count_list (dispatched win) EthereumInitialized)
   \<and> (ethereum (snd (createEip1193Provider pid u c win)) \<noteq> ethereum win
        \<or> count_list (dispatched (snd (createEip1193Provider pid u c win))) EthereumInitialized
            \<noteq> count_list (dispatched win) EthereumInitialized
      \<longrightarrow> autoInject c \<noteq> JBool False \<and> (\<not> hasExisting win \<or> js_truthy (forceReplace c)))"
proof -
  define win0 where "win0 = eip6963 pid u c (legacy_web3 pid c win)"
  have e0: "ethereum win0 = ethereum win"
    by (simp add: win0_def ethereum_eip6963 ethereum_legacy_web3)
  have d0: "count_list (dispatched win0) EthereumInitialized
              = count_list (dispatched win) EthereumInitialized"
    by (simp add: win0_def initialized_eip6963 initialized_legacy_web3)
  have h0: "hasExisting win0 = hasExisting win"
    by (simp add: win0_def hasExisting_prepared)
  have skip: "createEip1193Provider pid u c win = (Returns (new_provider pid c), win0)"
    if "\<not> (autoInject c \<noteq> JBool False \<and> (\<not> hasExisting win \<or> js_truthy (forceReplace c)))"
    using that inject_skipped [of c win0 pid] h0
    by (simp add: createEip1193Provider_def win0_def [symmetric])
  show ?thesis
  proof (cases "autoInject c \<noteq> JBool False \<and> (\<not> hasExisting win \<or> js_truthy (forceReplace c))")
    case True
    then show ?thesis by auto
  next
    case False
    show ?thesis
      using False by (simp add: skip [OF False] e0 d0)
  qed
qed

theorem no_double_install_witness:
  "createEip1193Provider 1 ''uuid-1'' default_cfg empty_window =
     (Returns (new_provider 1 default_cfg),
      \<lparr>ethereum = Some \<lparr>prop_value = Provider 1, prop_writable = False, prop_configurable = False\<rparr>,
       web3_currentProvider = Some (Provider 1),
       listeners = [(\<lparr>uuid = ''uuid-1'', info_name = JStr ''My Flutter Wallet'',
                      info_icon = JStr ''data:image/svg+xml;base64,'',
                      info_rdns = JStr ''app.myflutter.wallet''\<rparr>, 1)],
       dispatched = [AnnounceProvider \<lparr>uuid = ''uuid-1'', info_name = JStr ''My Flutter Wallet'',
                      info_icon = JStr ''data:image/svg+xml;base64,'',
                      info_rdns = JStr ''app.myflutter.wallet''\<rparr> 1,
                     EthereumInitialized]\<rparr>)
   \<and> ethereum (snd (createEip1193Provider 2 ''uuid-2'' default_cfg
                      (snd (createEip1193Provider 1 ''uuid-1'' default_cfg empty_window))))
       = Some \<lparr>prop_value = Provider 1, prop_writable = False, prop_configurable = False\<rparr>
   \<and> count_list
         (dispatched (snd (createEip1193Provider 2 ''uuid-2'' default_cfg
                      (snd (createEip1193Provider 1 ''uuid-1'' default_cfg empty_window)))))
         EthereumInitialized = 1"
  using no_double_install [of
      "snd (createEip1193Provider 1 ''uuid-1'' default_cfg empty_window)" default_cfg 2 "''uuid-2''"]
  by (simp add: createEip1193Provider_def inject_def eip6963_def legacy_web3_def hasExisting_def
      defineProperty_ethereum_def default_cfg_def empty_window_def js_or_def Let_def)

section \<open>Chain changes on the two paths\<close>

text \<open>
  Claim C10. \<^verbatim>\<open>_emitFromHost('chainChanged', payload)\<close> stores every payload, string or
  not, as \<^verbatim>\<open>chainId\<close>, and emits \<^verbatim>\<open>chainChanged\<close> with it exactly when it is not strictly
  equal to the previous \<^verbatim>\<open>chainId\<close>. A request for \<^verbatim>\<open>eth_chainId\<close> that the host answers
  stores and compares the result in the same way only when it is a string; any other
  result is passed through with the state untouched and nothing emitted.
\<close>

theorem chain_validation_divergence:
  "emitFromHost hb s ''chainChanged'' payload =
     (Returns (), s\<lparr>chainId := payload\<rparr>,
      if strict_eq payload (chainId s) then []
      else snd (Emitter_emit hb (emitter_m s) ''chainChanged'' [Val payload]))
   \<and> emitted (snd (snd (emitFromHost hb s ''chainChanged'' payload))) =
       (if strict_eq payload (chainId s) then [] else [(''chainChanged'', [Val payload])])
   \<and> (js_get args ''method'' = JStr ''eth_chainId''
       \<and> callHost w (BRIDGE s)
         \<lparr>req_id = JNum (genId w), req_method = JStr ''eth_chainId'',
          req_params = js_get args ''params''\<rparr>
         = Returns (Resolved result) \<longrightarrow>
       request w hb s args =
         (if js_typeof result = ''string''
          then (Returns (Resolved result), s\<lparr>chainId := result\<rparr>,
                if strict_eq result (chainId s) then []
                else snd (Emitter_emit hb (emitter_m s) ''chainChanged'' [Val result]))
          else (Returns (Resolved result), s, [])))"
proof -
  have host: "emitFromHost hb s ''chainChanged'' payload =
     (Returns (), s\<lparr>chainId := payload\<rparr>,
      if strict_eq payload (chainId s) then []
      else snd (Emitter_emit hb (emitter_m s) ''chainChanged'' [Val payload]))"
    by (simp add: emitFromHost_def Let_def emit_chainChanged)
  have client: "request_then hb s (JStr ''eth_chainId'') result =
         (if js_typeof result = ''string''
          then (Resolved result, s\<lparr>chainId := result\<rparr>,
                if strict_eq result (chainId s) then []
                else snd (Emitter_emit hb (emitter_m s) ''chainChanged'' [Val result]))
          else (Resolved result, s, []))"
    by (simp add: request_then_def Let_def emit_chainChanged)
  have notnull: "js_get args ''method'' = JStr ''eth_chainId'' \<longrightarrow> args \<noteq> JNull"
    by auto
  show ?thesis
    using notnull by (auto simp: host client request_def emitted_emit)
qed

theorem chain_validation_divergence_witness:
  "emitFromHost quiet fresh_state ''chainChanged'' (JNum 1) =
     (Returns (), fresh_state\<lparr>chainId := JNum 1\<rparr>, [Emit ''chainChanged'' [Val (JNum 1)]])
   \<and> request (page_answering (JObj 2 [(''result'', JNum 1)])) quiet fresh_state
        (JObj 3 [(''method'', JStr ''eth_chainId'')])
     = (Returns (Resolved (JNum 1)), fresh_state, [])"
  using chain_validation_divergence [of quiet fresh_state "JNum 1"
      "JObj 3 [(''method'', JStr ''eth_chainId'')]"
      "page_answering (JObj 2 [(''result'', JNum 1)])" "JNum 1"]
  by (simp add: callHost_def host_then_def decode_def page_answering_def answers_def
      fresh_state_def emit_chainChanged)

end
